theory Spec2Isabelle
  imports Complex_Main
begin

section \<open>Data model\<close>

text \<open>
  The development embeds \<^verbatim>\<open>driftpy/clearing_house_user.py\<close>: the class
  \<^verbatim>\<open>ClearingHouseUser\<close>, its cache, its accessors and its risk aggregation methods.

  Python numbers (the unbounded \<^verbatim>\<open>int\<close> and the \<^verbatim>\<open>float\<close> that the true division
  \<^verbatim>\<open>/\<close> produces) are embedded in \<^typ>\<open>real\<close>, with exact arithmetic; the rounding of
  floating point is not part of the model. Indices of markets and of sub-accounts, and the
  unsigned quantities of the ledger (scaled balances, interest indices, shares) are naturals;
  a public key is a natural number.

  The records follow the attributes the methods and their helpers read. Several classes of
  the source have an attribute \<^verbatim>\<open>market_index\<close>; the fields carry a short prefix
  (\<open>sm_\<close> spot market, \<open>pm_\<close> perp market, \<open>sp_\<close> spot position, \<open>pp_\<close> perp position)
  because the fields of all records share one name space.
\<close>

type_synonym PublicKey = nat

datatype MarginCategory = INITIAL | MAINTENANCE

datatype SpotBalanceType = Deposit | Borrow

record State =
  number_of_spot_markets :: nat
  number_of_markets :: nat
  liquidation_margin_buffer_ratio :: real

record SpotMarket =
  sm_market_index :: nat
  sm_oracle :: PublicKey
  decimals :: nat
  cumulative_deposit_interest :: nat
  cumulative_borrow_interest :: nat

record AMM =
  amm_oracle :: PublicKey

record PerpMarket =
  pm_market_index :: nat
  amm :: AMM

record OraclePriceData =
  price :: real
  confidence :: real
  slot :: nat

text \<open>
  \<^verbatim>\<open>set_cache\<close> stores the integer \<^verbatim>\<open>1\<close> as the oracle datum of spot market 0 and an
  oracle observation for every other spot market, so what \<^verbatim>\<open>get_spot_oracle_data\<close>
  returns is one or the other.
\<close>

datatype SpotOracle = IntOne | OracleData OraclePriceData

record SpotPosition =
  sp_market_index :: nat
  scaled_balance :: nat
  balance_type :: SpotBalanceType
  sp_open_bids :: real
  sp_open_asks :: real

record PerpPosition =
  pp_market_index :: nat
  base_asset_amount :: real
  quote_asset_amount :: real
  lp_shares :: nat
  pp_open_bids :: real
  pp_open_asks :: real

record User =
  spot_positions :: "SpotPosition list"
  perp_positions :: "PerpPosition list"
  max_margin_ratio :: real
  being_liquidated :: bool

text \<open>
  The dictionary \<^verbatim>\<open>self.CACHE\<close> has the six keys below; a key that has not been assigned
  yet is \<open>None\<close>.
\<close>

record Cache =
  cache_state :: "State option"
  cache_spot_markets :: "SpotMarket list option"
  cache_spot_market_oracles :: "SpotOracle list option"
  cache_perp_markets :: "PerpMarket list option"
  cache_perp_market_oracles :: "OraclePriceData list option"
  cache_user :: "User option"

definition empty_cache :: Cache where
  "empty_cache = \<lparr>cache_state = None, cache_spot_markets = None,
     cache_spot_market_oracles = None, cache_perp_markets = None,
     cache_perp_market_oracles = None, cache_user = None\<rparr>"

record ClearingHouseUser =
  authority :: PublicKey
  subaccount_id :: nat
  use_cache :: bool
  cache_is_set :: bool
  CACHE :: Cache

text \<open>\<^verbatim>\<open>__init__\<close>: the cache flag starts false (the attribute \<^verbatim>\<open>CACHE\<close> does not exist
  yet; no method reads it while the flag is false).\<close>

definition init :: "PublicKey \<Rightarrow> nat \<Rightarrow> bool \<Rightarrow> ClearingHouseUser" where
  "init auth sub uc =
     \<lparr>authority = auth, subaccount_id = sub, use_cache = uc, cache_is_set = False,
      CACHE = empty_cache\<rparr>"

section \<open>The external ledger, errors and effects\<close>

text \<open>
  The functions \<^verbatim>\<open>get_state_account\<close>, \<^verbatim>\<open>get_spot_market_account\<close>,
  \<^verbatim>\<open>get_perp_market_account\<close>, \<^verbatim>\<open>get_oracle_data\<close> and \<^verbatim>\<open>get_user_account\<close> of
  \<^verbatim>\<open>driftpy.accounts\<close> read the remote ledger. A ledger is what these five return at one
  moment (\<open>None\<close>: the fetch fails). The world holds the ledger of every moment and a clock
  that counts the fetches made so far: every fetch reads the ledger of the current moment and
  advances the clock, so two fetches need not see the same ledger, and the clock is a log of
  the traffic with the ledger.
\<close>

record Ledger =
  get_state_account :: "State option"
  get_spot_market_account :: "nat \<Rightarrow> SpotMarket option"
  get_perp_market_account :: "nat \<Rightarrow> PerpMarket option"
  get_oracle_data :: "PublicKey \<Rightarrow> OraclePriceData option"
  get_user_account :: "PublicKey \<Rightarrow> nat \<Rightarrow> User option"

record World =
  clock :: nat
  ledger_at :: "nat \<Rightarrow> Ledger"

text \<open>
  The exceptions of the source: \<open>AssertionError\<close> is the failed
  \<^verbatim>\<open>assert self.cache_is_set\<close> (the specification's NotReady), \<open>NotImplementedError\<close> is
  raised by \<^verbatim>\<open>get_unrealized_pnl\<close> (the specification's UnsupportedOption), \<open>KeyError\<close>
  and \<open>IndexError\<close> come from reading the cache, \<open>ZeroDivisionError\<close> from \<^verbatim>\<open>/\<close>, and
  \<open>FetchError\<close> stands for any failure of a fetch (the specification's DataUnavailable).
\<close>

datatype error =
  AssertionError | NotImplementedError | KeyError | IndexError | ZeroDivisionError | FetchError

type_synonym 'a io = "World \<Rightarrow> (error + 'a) \<times> World"

definition ret :: "'a \<Rightarrow> 'a io" where
  "ret v = (\<lambda>w. (Inr v, w))"

definition raise :: "error \<Rightarrow> 'a io" where
  "raise e = (\<lambda>w. (Inl e, w))"

text \<open>Sequencing: an exception of the first computation skips the second; the fetches
  already made stay made.\<close>

definition bind :: "'a io \<Rightarrow> ('a \<Rightarrow> 'b io) \<Rightarrow> 'b io" where
  "bind m f = (\<lambda>w. case m w of (Inl e, w') \<Rightarrow> (Inl e, w') | (Inr v, w') \<Rightarrow> f v w')"

definition fetch :: "(Ledger \<Rightarrow> 'a option) \<Rightarrow> 'a io" where
  "fetch sel = (\<lambda>w.
     (case sel (ledger_at w (clock w)) of None \<Rightarrow> Inl FetchError | Some v \<Rightarrow> Inr v,
      w\<lparr>clock := Suc (clock w)\<rparr>))"

text \<open>A \<^verbatim>\<open>for\<close> loop that updates a running value \<open>s\<close> once for each element.\<close>

fun for_loop :: "('s \<Rightarrow> 'a \<Rightarrow> 's io) \<Rightarrow> 's \<Rightarrow> 'a list \<Rightarrow> 's io" where
  "for_loop body s [] w = (Inr s, w)"
| "for_loop body s (x # xs) w =
     (case body s x w of
        (Inl e, w') \<Rightarrow> (Inl e, w')
      | (Inr s', w') \<Rightarrow> for_loop body s' xs w')"

text \<open>Python's \<^verbatim>\<open>a / b\<close>.\<close>

definition py_div :: "real \<Rightarrow> real \<Rightarrow> real io" where
  "py_div a b = (if b = 0 then raise ZeroDivisionError else ret (a / b))"

text \<open>Python's \<^verbatim>\<open>xs[i]\<close> for an index that is not negative.\<close>

definition index :: "'a list \<Rightarrow> nat \<Rightarrow> 'a io" where
  "index xs i = (if i < length xs then ret (xs ! i) else raise IndexError)"

text \<open>Python's \<^verbatim>\<open>self.CACHE[key]\<close>.\<close>

definition lookup :: "'a option \<Rightarrow> 'a io" where
  "lookup entry = (case entry of None \<Rightarrow> raise KeyError | Some v \<Rightarrow> ret v)"

section \<open>The snapshot provider\<close>

text \<open>
  \<^verbatim>\<open>set_cache\<close> mutates the object, and what it has assigned stays assigned when a later
  fetch raises; it returns the object it leaves behind together with its result.
\<close>

definition set_cache_spot_body ::
  "SpotMarket list \<times> SpotOracle list \<Rightarrow> nat \<Rightarrow> (SpotMarket list \<times> SpotOracle list) io" where
  "set_cache_spot_body acc i =
     (case acc of (spot_markets, spot_market_oracle_data) \<Rightarrow>
        bind (fetch (\<lambda>l. get_spot_market_account l i)) (\<lambda>spot_market.
          if i = 0 then ret (spot_markets @ [spot_market], spot_market_oracle_data @ [IntOne])
          else bind (fetch (\<lambda>l. get_oracle_data l (sm_oracle spot_market))) (\<lambda>oracle_data.
            ret (spot_markets @ [spot_market],
                 spot_market_oracle_data @ [OracleData oracle_data]))))"

definition set_cache_perp_body ::
  "PerpMarket list \<times> OraclePriceData list \<Rightarrow> nat \<Rightarrow>
     (PerpMarket list \<times> OraclePriceData list) io" where
  "set_cache_perp_body acc i =
     (case acc of (perp_markets, perp_market_oracle_data) \<Rightarrow>
        bind (fetch (\<lambda>l. get_perp_market_account l i)) (\<lambda>perp_market.
          bind (fetch (\<lambda>l. get_oracle_data l (amm_oracle (amm perp_market)))) (\<lambda>oracle_data.
            ret (perp_markets @ [perp_market], perp_market_oracle_data @ [oracle_data]))))"

definition set_cache ::
  "ClearingHouseUser \<Rightarrow> World \<Rightarrow> (error + unit) \<times> ClearingHouseUser \<times> World" where
  "set_cache self0 w0 =
     (let self1 = self0\<lparr>cache_is_set := True\<rparr>;
          self2 = self1\<lparr>CACHE := empty_cache\<rparr>
      in case fetch get_state_account w0 of
           (Inl e, w1) \<Rightarrow> (Inl e, self2, w1)
         | (Inr state, w1) \<Rightarrow>
        (let self3 = self2\<lparr>CACHE := (CACHE self2)\<lparr>cache_state := Some state\<rparr>\<rparr>
         in case for_loop set_cache_spot_body ([], []) [0 ..< number_of_spot_markets state] w1 of
              (Inl e, w2) \<Rightarrow> (Inl e, self3, w2)
            | (Inr (spot_markets, spot_market_oracle_data), w2) \<Rightarrow>
        (let self4 = self3\<lparr>CACHE := (CACHE self3)\<lparr>cache_spot_markets := Some spot_markets\<rparr>\<rparr>;
             self5 = self4\<lparr>CACHE := (CACHE self4)
                        \<lparr>cache_spot_market_oracles := Some spot_market_oracle_data\<rparr>\<rparr>
         in case for_loop set_cache_perp_body ([], []) [0 ..< number_of_markets state] w2 of
              (Inl e, w3) \<Rightarrow> (Inl e, self5, w3)
            | (Inr (perp_markets, perp_market_oracle_data), w3) \<Rightarrow>
        (let self6 = self5\<lparr>CACHE := (CACHE self5)\<lparr>cache_perp_markets := Some perp_markets\<rparr>\<rparr>;
             self7 = self6\<lparr>CACHE := (CACHE self6)
                        \<lparr>cache_perp_market_oracles := Some perp_market_oracle_data\<rparr>\<rparr>
         in case fetch (\<lambda>l. get_user_account l (authority self7) (subaccount_id self7)) w3 of
              (Inl e, w4) \<Rightarrow> (Inl e, self7, w4)
            | (Inr user, w4) \<Rightarrow>
                (Inr (), self7\<lparr>CACHE := (CACHE self7)\<lparr>cache_user := Some user\<rparr>\<rparr>, w4)))))"

text \<open>The six accessors. In cached mode each asserts the flag and reads the cache; in live
  mode each fetches.\<close>

definition get_spot_oracle_data :: "ClearingHouseUser \<Rightarrow> SpotMarket \<Rightarrow> SpotOracle io" where
  "get_spot_oracle_data self spot_market =
     (if use_cache self then
        (if cache_is_set self then
           bind (lookup (cache_spot_market_oracles (CACHE self))) (\<lambda>oracles.
             index oracles (sm_market_index spot_market))
         else raise AssertionError)
      else bind (fetch (\<lambda>l. get_oracle_data l (sm_oracle spot_market))) (\<lambda>oracle_data.
             ret (OracleData oracle_data)))"

definition get_perp_oracle_data :: "ClearingHouseUser \<Rightarrow> PerpMarket \<Rightarrow> OraclePriceData io" where
  "get_perp_oracle_data self perp_market =
     (if use_cache self then
        (if cache_is_set self then
           bind (lookup (cache_perp_market_oracles (CACHE self))) (\<lambda>oracles.
             index oracles (pm_market_index perp_market))
         else raise AssertionError)
      else fetch (\<lambda>l. get_oracle_data l (amm_oracle (amm perp_market))))"

definition get_state :: "ClearingHouseUser \<Rightarrow> State io" where
  "get_state self =
     (if use_cache self then
        (if cache_is_set self then lookup (cache_state (CACHE self))
         else raise AssertionError)
      else fetch get_state_account)"

definition get_spot_market :: "ClearingHouseUser \<Rightarrow> nat \<Rightarrow> SpotMarket io" where
  "get_spot_market self i =
     (if use_cache self then
        (if cache_is_set self then
           bind (lookup (cache_spot_markets (CACHE self))) (\<lambda>markets. index markets i)
         else raise AssertionError)
      else fetch (\<lambda>l. get_spot_market_account l i))"

definition get_perp_market :: "ClearingHouseUser \<Rightarrow> nat \<Rightarrow> PerpMarket io" where
  "get_perp_market self i =
     (if use_cache self then
        (if cache_is_set self then
           bind (lookup (cache_perp_markets (CACHE self))) (\<lambda>markets. index markets i)
         else raise AssertionError)
      else fetch (\<lambda>l. get_perp_market_account l i))"

definition get_user :: "ClearingHouseUser \<Rightarrow> User io" where
  "get_user self =
     (if use_cache self then
        (if cache_is_set self then lookup (cache_user (CACHE self))
         else raise AssertionError)
      else fetch (\<lambda>l. get_user_account l (authority self) (subaccount_id self)))"

section \<open>The helpers of the valuation\<close>

text \<open>
  The methods call helpers of \<^verbatim>\<open>driftpy.math\<close> and use constants of
  \<^verbatim>\<open>driftpy.constants.numeric_constants\<close>; neither module is part of this source file.
  The helpers and the precision constants are parameters of the model, collected in one
  record; each field has the name and the arguments of the helper it stands for. They are
  functions: they neither fetch nor raise.
\<close>

record Math =
  SPOT_WEIGHT_PRECISION :: real
  AMM_TO_QUOTE_PRECISION_RATIO :: real
  PRICE_PRECISION :: real
  MARGIN_PRECISION :: real
  is_spot_position_available :: "SpotPosition \<Rightarrow> bool"
  get_token_amount :: "nat \<Rightarrow> SpotMarket \<Rightarrow> SpotBalanceType \<Rightarrow> real"
  get_spot_asset_value ::
    "real \<Rightarrow> SpotOracle \<Rightarrow> SpotMarket \<Rightarrow> MarginCategory option \<Rightarrow> real"
  get_spot_liability_value ::
    "real \<Rightarrow> SpotOracle \<Rightarrow> SpotMarket \<Rightarrow> MarginCategory option \<Rightarrow> real option \<Rightarrow> real \<Rightarrow> real"
  get_worst_case_token_amounts :: "SpotPosition \<Rightarrow> SpotMarket \<Rightarrow> SpotOracle \<Rightarrow> real \<times> real"
  calculate_worst_case_base_asset_amount :: "PerpPosition \<Rightarrow> real"
  calculate_market_margin_ratio :: "PerpMarket \<Rightarrow> real \<Rightarrow> MarginCategory \<Rightarrow> real"
  calculate_position_pnl :: "PerpMarket \<Rightarrow> PerpPosition \<Rightarrow> OraclePriceData \<Rightarrow> bool \<Rightarrow> real"

text \<open>
  Modelled from the spec: the constant \<^verbatim>\<open>QUOTE_ASSET_BANK_INDEX\<close> of
  \<^verbatim>\<open>driftpy.constants.numeric_constants\<close> is not among the sources; the specification
  fixes it: market index 0 always denotes the cash asset.
\<close>

definition QUOTE_ASSET_BANK_INDEX :: nat where
  "QUOTE_ASSET_BANK_INDEX = 0"

section \<open>The risk aggregator\<close>

text \<open>
  Every method takes the object and the helpers. An optional argument is an \<open>option\<close>;
  \<^verbatim>\<open>include_open_orders\<close> is a truth value (its default \<^verbatim>\<open>None\<close> in
  \<^verbatim>\<open>get_spot_market_liability\<close> is falsy: \<open>False\<close>). The body of each loop maps the
  running total before a position to the running total after it; \<^verbatim>\<open>continue\<close> returns
  the total unchanged.
\<close>

definition spot_liability_body ::
  "ClearingHouseUser \<Rightarrow> Math \<Rightarrow> nat option \<Rightarrow> MarginCategory option \<Rightarrow> real option \<Rightarrow> bool \<Rightarrow>
     User \<Rightarrow> real \<Rightarrow> SpotPosition \<Rightarrow> real io" where
  "spot_liability_body self M market_index margin_category liquidation_buffer
       include_open_orders user total_liability position =
     (if is_spot_position_available M position \<or>
         (market_index \<noteq> None \<and> Some (sp_market_index position) \<noteq> market_index)
      then ret total_liability
      else bind (get_spot_market self (sp_market_index position)) (\<lambda>spot_market.
        if sp_market_index position = QUOTE_ASSET_BANK_INDEX then
          (if balance_type position = Borrow then
             (let token_amount = get_token_amount M (scaled_balance position) spot_market
                                   (balance_type position);
                  weight = SPOT_WEIGHT_PRECISION M;
                  weight = (if margin_category = Some INITIAL
                            then max weight (max_margin_ratio user) else weight)
              in bind (py_div (token_amount * weight) (SPOT_WEIGHT_PRECISION M)) (\<lambda>value.
                   ret (total_liability + value)))
           else ret total_liability)
        else bind (get_spot_oracle_data self spot_market) (\<lambda>oracle_data.
          if \<not> include_open_orders then
            (if balance_type position = Borrow then
               (let token_amount = get_token_amount M (scaled_balance position) spot_market
                                     (balance_type position);
                    liability_value = get_spot_liability_value M token_amount oracle_data
                                        spot_market margin_category liquidation_buffer
                                        (max_margin_ratio user)
                in ret (total_liability + liability_value))
             else ret total_liability)
          else
            (case get_worst_case_token_amounts M position spot_market oracle_data of
               (worst_case_token_amount, worst_case_quote_amount) \<Rightarrow>
                 (let total_liability =
                        (if worst_case_token_amount < 0 then
                           total_liability +
                             get_spot_liability_value M \<bar>worst_case_token_amount\<bar> oracle_data
                               spot_market margin_category liquidation_buffer
                               (max_margin_ratio user)
                         else total_liability)
                  in if worst_case_quote_amount < 0 then
                       (let weight = SPOT_WEIGHT_PRECISION M;
                            weight = (if margin_category = Some INITIAL
                                      then max weight (max_margin_ratio user) else weight)
                        in bind (py_div (\<bar>worst_case_quote_amount\<bar> * weight)
                                   (SPOT_WEIGHT_PRECISION M)) (\<lambda>weighted_value.
                             ret (total_liability + weighted_value)))
                     else ret total_liability)))))"

definition get_spot_market_liability ::
  "ClearingHouseUser \<Rightarrow> Math \<Rightarrow> nat option \<Rightarrow> MarginCategory option \<Rightarrow> real option \<Rightarrow> bool \<Rightarrow>
     real io" where
  "get_spot_market_liability self M market_index margin_category liquidation_buffer
       include_open_orders =
     bind (get_user self) (\<lambda>user.
       for_loop (spot_liability_body self M market_index margin_category liquidation_buffer
                   include_open_orders user) 0 (spot_positions user))"

definition perp_positon_body ::
  "ClearingHouseUser \<Rightarrow> Math \<Rightarrow> MarginCategory option \<Rightarrow> real option \<Rightarrow> bool \<Rightarrow>
     User \<Rightarrow> real \<Rightarrow> PerpPosition \<Rightarrow> real io" where
  "perp_positon_body self M margin_category liquidation_buffer include_open_orders user
       unrealized_pnl position =
     bind (get_perp_market self (pp_market_index position)) (\<lambda>market.
       bind (if lp_shares position > 0 then ret () else ret ()) (\<lambda>_.
       bind (get_perp_oracle_data self market) (\<lambda>oracle_data.
         (let price = price oracle_data;
              base_asset_amount =
                (if include_open_orders then calculate_worst_case_base_asset_amount M position
                 else base_asset_amount position)
          in bind (py_div (\<bar>base_asset_amount\<bar> * price)
                     (AMM_TO_QUOTE_PRECISION_RATIO M * PRICE_PRECISION M)) (\<lambda>base_value.
               bind (case margin_category of
                       None \<Rightarrow> ret base_value
                     | Some category \<Rightarrow>
                         (let margin_ratio = calculate_market_margin_ratio M market
                                               \<bar>base_asset_amount\<bar> category;
                              margin_ratio = (if category = INITIAL
                                              then max margin_ratio (max_margin_ratio user)
                                              else margin_ratio);
                              margin_ratio = (case liquidation_buffer of
                                                None \<Rightarrow> margin_ratio
                                              | Some buffer \<Rightarrow> margin_ratio + buffer)
                          in py_div (base_value * margin_ratio) (MARGIN_PRECISION M)))
                 (\<lambda>base_value. ret (unrealized_pnl + base_value)))))))"

definition get_total_perp_positon ::
  "ClearingHouseUser \<Rightarrow> Math \<Rightarrow> MarginCategory option \<Rightarrow> real option \<Rightarrow> bool \<Rightarrow> real io" where
  "get_total_perp_positon self M margin_category liquidation_buffer include_open_orders =
     bind (get_user self) (\<lambda>user.
       for_loop (perp_positon_body self M margin_category liquidation_buffer
                   include_open_orders user) 0 (perp_positions user))"

definition get_margin_requirement ::
  "ClearingHouseUser \<Rightarrow> Math \<Rightarrow> MarginCategory option \<Rightarrow> real option \<Rightarrow> real io" where
  "get_margin_requirement self M margin_category liquidation_buffer =
     bind (get_total_perp_positon self M margin_category liquidation_buffer True)
       (\<lambda>perp_liability.
     bind (get_spot_market_liability self M None margin_category liquidation_buffer True)
       (\<lambda>spot_liability.
     ret (perp_liability + spot_liability)))"

definition unrealized_pnl_body ::
  "ClearingHouseUser \<Rightarrow> Math \<Rightarrow> bool \<Rightarrow> nat option \<Rightarrow> MarginCategory option \<Rightarrow>
     real \<Rightarrow> PerpPosition \<Rightarrow> real io" where
  "unrealized_pnl_body self M with_funding market_index with_weight_margin_category
       unrealized_pnl position =
     (if market_index \<noteq> None \<and> Some (pp_market_index position) \<noteq> market_index
      then ret unrealized_pnl
      else bind (get_perp_market self (pp_market_index position)) (\<lambda>market.
        bind (get_perp_oracle_data self market) (\<lambda>oracle_data.
          (let position_unrealized_pnl =
                 calculate_position_pnl M market position oracle_data with_funding
           in if with_weight_margin_category \<noteq> None then raise NotImplementedError
              else ret (unrealized_pnl + position_unrealized_pnl)))))"

definition get_unrealized_pnl ::
  "ClearingHouseUser \<Rightarrow> Math \<Rightarrow> bool \<Rightarrow> nat option \<Rightarrow> MarginCategory option \<Rightarrow> real io" where
  "get_unrealized_pnl self M with_funding market_index with_weight_margin_category =
     bind (get_user self) (\<lambda>user.
       for_loop (unrealized_pnl_body self M with_funding market_index
                   with_weight_margin_category) 0 (perp_positions user))"

definition spot_asset_body ::
  "ClearingHouseUser \<Rightarrow> Math \<Rightarrow> MarginCategory option \<Rightarrow> bool \<Rightarrow> nat option \<Rightarrow>
     real \<Rightarrow> SpotPosition \<Rightarrow> real io" where
  "spot_asset_body self M margin_category include_open_orders market_index
       total_value position =
     (if is_spot_position_available M position \<or>
         (market_index \<noteq> None \<and> Some (sp_market_index position) \<noteq> market_index)
      then ret total_value
      else bind (get_spot_market self (sp_market_index position)) (\<lambda>spot_market.
        if sp_market_index position = QUOTE_ASSET_BANK_INDEX then
          (let spot_token_value = get_token_amount M (scaled_balance position) spot_market
                                    (balance_type position)
           in ret (total_value + spot_token_value))
        else bind (get_spot_oracle_data self spot_market) (\<lambda>oracle_data.
          if \<not> include_open_orders then
            (if balance_type position = Deposit then
               (let token_amount = get_token_amount M (scaled_balance position) spot_market
                                     (balance_type position);
                    asset_value = get_spot_asset_value M token_amount oracle_data spot_market
                                    margin_category
                in ret (total_value + asset_value))
             else ret total_value)
          else
            (case get_worst_case_token_amounts M position spot_market oracle_data of
               (worst_case_token_amount, worst_case_quote_amount) \<Rightarrow>
                 (let total_value =
                        (if worst_case_token_amount > 0 then
                           total_value +
                             get_spot_asset_value M worst_case_token_amount oracle_data
                               spot_market margin_category
                         else total_value)
                  in if worst_case_quote_amount > 0
                     then ret (total_value + worst_case_quote_amount)
                     else ret total_value)))))"

definition get_spot_market_asset_value ::
  "ClearingHouseUser \<Rightarrow> Math \<Rightarrow> MarginCategory option \<Rightarrow> bool \<Rightarrow> nat option \<Rightarrow> real io" where
  "get_spot_market_asset_value self M margin_category include_open_orders market_index =
     bind (get_user self) (\<lambda>user.
       for_loop (spot_asset_body self M margin_category include_open_orders market_index)
         0 (spot_positions user))"

definition get_total_collateral ::
  "ClearingHouseUser \<Rightarrow> Math \<Rightarrow> MarginCategory option \<Rightarrow> real io" where
  "get_total_collateral self M margin_category =
     bind (get_spot_market_asset_value self M margin_category True None) (\<lambda>spot_collateral.
     bind (get_unrealized_pnl self M True None margin_category) (\<lambda>pnl.
     ret (spot_collateral + pnl)))"

definition get_free_collateral :: "ClearingHouseUser \<Rightarrow> Math \<Rightarrow> real io" where
  "get_free_collateral self M =
     bind (get_total_collateral self M None) (\<lambda>total_collateral.
     bind (get_margin_requirement self M (Some INITIAL) (Some 0)) (\<lambda>init_margin_req.
     (let free_collateral = total_collateral - init_margin_req;
          free_collateral = max 0 free_collateral
      in ret free_collateral)))"

definition can_be_liquidated :: "ClearingHouseUser \<Rightarrow> Math \<Rightarrow> bool io" where
  "can_be_liquidated self M =
     bind (get_total_collateral self M None) (\<lambda>total_collateral.
     bind (get_user self) (\<lambda>user.
     bind (if being_liquidated user
           then bind (get_state self) (\<lambda>state.
                  ret (Some (liquidation_margin_buffer_ratio state)))
           else ret None) (\<lambda>liquidation_buffer.
     bind (get_margin_requirement self M (Some MAINTENANCE) liquidation_buffer)
       (\<lambda>maintenance_req.
     ret (total_collateral < maintenance_req)))))"

definition get_leverage :: "ClearingHouseUser \<Rightarrow> Math \<Rightarrow> MarginCategory option \<Rightarrow> real io" where
  "get_leverage self M margin_category =
     bind (get_margin_requirement self M margin_category None) (\<lambda>total_liability.
     bind (get_total_collateral self M margin_category) (\<lambda>total_asset_value.
     if total_asset_value = 0 \<or> total_liability = 0 then ret 0
     else py_div (total_liability * 10000) total_asset_value))"

section \<open>A concrete instance\<close>

text \<open>
  Concrete inputs on which the theorems below are exercised. \<open>demo_math\<close> instantiates the
  helpers along the lines of the specification, with every quote, base and price precision
  equal to 1: token amounts are scaled balances times the interest index of the direction,
  values are token amounts times the oracle price times a weight, the weights and margin
  ratios of the initial regime are stricter than those of the maintenance regime, and the
  worst case of a position adds the side of its open orders that gives the larger absolute
  exposure.
\<close>

definition spot_price :: "SpotOracle \<Rightarrow> real" where
  "spot_price oracle_data = (case oracle_data of IntOne \<Rightarrow> 1 | OracleData d \<Rightarrow> price d)"

definition demo_token_amount :: "nat \<Rightarrow> SpotMarket \<Rightarrow> SpotBalanceType \<Rightarrow> real" where
  "demo_token_amount balance spot_market direction =
     real (balance * (case direction of
                        Deposit \<Rightarrow> cumulative_deposit_interest spot_market
                      | Borrow \<Rightarrow> cumulative_borrow_interest spot_market))
       / 10 ^ decimals spot_market"

definition demo_asset_value ::
  "real \<Rightarrow> SpotOracle \<Rightarrow> SpotMarket \<Rightarrow> MarginCategory option \<Rightarrow> real" where
  "demo_asset_value token_amount oracle_data spot_market margin_category =
     token_amount * spot_price oracle_data *
       (case margin_category of None \<Rightarrow> 10000 | Some INITIAL \<Rightarrow> 8000
        | Some MAINTENANCE \<Rightarrow> 9000) / 10000"

definition demo_liability_value ::
  "real \<Rightarrow> SpotOracle \<Rightarrow> SpotMarket \<Rightarrow> MarginCategory option \<Rightarrow> real option \<Rightarrow> real \<Rightarrow> real"
  where
  "demo_liability_value token_amount oracle_data spot_market margin_category
       liquidation_buffer max_margin_ratio_override =
     (case margin_category of
        None \<Rightarrow> token_amount * spot_price oracle_data
      | Some category \<Rightarrow>
          token_amount * spot_price oracle_data *
            ((if category = INITIAL then max 12000 max_margin_ratio_override else 11000)
             + (case liquidation_buffer of None \<Rightarrow> 0 | Some buffer \<Rightarrow> buffer)) / 10000)"

definition demo_worst_case_token_amounts ::
  "SpotPosition \<Rightarrow> SpotMarket \<Rightarrow> SpotOracle \<Rightarrow> real \<times> real" where
  "demo_worst_case_token_amounts position spot_market oracle_data =
     (let amount = demo_token_amount (scaled_balance position) spot_market
                     (balance_type position);
          token_amount = (if balance_type position = Borrow then - amount else amount);
          all_bids = token_amount + sp_open_bids position;
          all_asks = token_amount + sp_open_asks position
      in if \<bar>all_bids\<bar> > \<bar>all_asks\<bar>
         then (all_bids, - (sp_open_bids position * spot_price oracle_data))
         else (all_asks, - (sp_open_asks position * spot_price oracle_data)))"

definition demo_worst_case_base_asset_amount :: "PerpPosition \<Rightarrow> real" where
  "demo_worst_case_base_asset_amount position =
     (let all_bids = base_asset_amount position + pp_open_bids position;
          all_asks = base_asset_amount position + pp_open_asks position
      in if \<bar>all_bids\<bar> > \<bar>all_asks\<bar> then all_bids else all_asks)"

definition demo_math :: Math where
  "demo_math =
     \<lparr>SPOT_WEIGHT_PRECISION = 10000,
      AMM_TO_QUOTE_PRECISION_RATIO = 1,
      PRICE_PRECISION = 1,
      MARGIN_PRECISION = 10000,
      is_spot_position_available =
        (\<lambda>position. scaled_balance position = 0 \<and> sp_open_bids position = 0 \<and>
                     sp_open_asks position = 0),
      get_token_amount = demo_token_amount,
      get_spot_asset_value = demo_asset_value,
      get_spot_liability_value = demo_liability_value,
      get_worst_case_token_amounts = demo_worst_case_token_amounts,
      calculate_worst_case_base_asset_amount = demo_worst_case_base_asset_amount,
      calculate_market_margin_ratio =
        (\<lambda>market size category. case category of INITIAL \<Rightarrow> 1000 | MAINTENANCE \<Rightarrow> 500),
      calculate_position_pnl =
        (\<lambda>market position oracle_data with_funding.
           base_asset_amount position * price oracle_data + quote_asset_amount position)\<rparr>"

text \<open>
  The account of the end-to-end scenario of the specification: a cash deposit of 1000 units
  in spot market 0 and a perpetual position of 5 units, entered at the oracle price 100.
\<close>

definition demo_cash_market :: SpotMarket where
  "demo_cash_market =
     \<lparr>sm_market_index = 0, sm_oracle = 0, decimals = 0, cumulative_deposit_interest = 1,
      cumulative_borrow_interest = 1\<rparr>"

definition demo_perp_market :: PerpMarket where
  "demo_perp_market = \<lparr>pm_market_index = 0, amm = \<lparr>amm_oracle = 7\<rparr>\<rparr>"

definition demo_oracle :: OraclePriceData where
  "demo_oracle = \<lparr>price = 100, confidence = 0, slot = 1\<rparr>"

definition demo_cash_deposit :: SpotPosition where
  "demo_cash_deposit =
     \<lparr>sp_market_index = 0, scaled_balance = 1000, balance_type = Deposit, sp_open_bids = 0,
      sp_open_asks = 0\<rparr>"

definition demo_perp_position :: PerpPosition where
  "demo_perp_position =
     \<lparr>pp_market_index = 0, base_asset_amount = 5, quote_asset_amount = - 500, lp_shares = 0,
      pp_open_bids = 0, pp_open_asks = 0\<rparr>"

definition demo_account :: User where
  "demo_account =
     \<lparr>spot_positions = [demo_cash_deposit], perp_positions = [demo_perp_position],
      max_margin_ratio = 0, being_liquidated = False\<rparr>"

definition demo_state :: State where
  "demo_state =
     \<lparr>number_of_spot_markets = 1, number_of_markets = 1,
      liquidation_margin_buffer_ratio = 200\<rparr>"

definition demo_ledger :: Ledger where
  "demo_ledger =
     \<lparr>get_state_account = Some demo_state,
      get_spot_market_account = (\<lambda>i. if i = 0 then Some demo_cash_market else None),
      get_perp_market_account = (\<lambda>i. if i = 0 then Some demo_perp_market else None),
      get_oracle_data = (\<lambda>key. if key = 7 then Some demo_oracle else None),
      get_user_account = (\<lambda>auth sub. if auth = 1 \<and> sub = 0 then Some demo_account else None)\<rparr>"

definition demo_world :: World where
  "demo_world = \<lparr>clock = 0, ledger_at = (\<lambda>t. demo_ledger)\<rparr>"

text \<open>An object in cached mode whose cache holds the given account.\<close>

definition cached_user :: "User \<Rightarrow> ClearingHouseUser" where
  "cached_user user =
     \<lparr>authority = 1, subaccount_id = 0, use_cache = True, cache_is_set = True,
      CACHE = \<lparr>cache_state = Some demo_state,
               cache_spot_markets = Some [demo_cash_market],
               cache_spot_market_oracles = Some [IntOne],
               cache_perp_markets = Some [demo_perp_market],
               cache_perp_market_oracles = Some [demo_oracle],
               cache_user = Some user\<rparr>\<rparr>"

text \<open>A second account for the cash market: a borrow of 100 units in spot market 0.\<close>

definition demo_cash_borrow :: SpotPosition where
  "demo_cash_borrow =
     \<lparr>sp_market_index = 0, scaled_balance = 100, balance_type = Borrow, sp_open_bids = 0,
      sp_open_asks = 0\<rparr>"

section \<open>Auxiliary notions\<close>

text \<open>A computation that returns the same result from every world and leaves the world as
  it is: it neither reads the ledger nor fetches.\<close>

definition const_io :: "'a io \<Rightarrow> bool" where
  "const_io m \<longleftrightarrow> (\<exists>r. \<forall>w. m w = (r, w))"

text \<open>A world in which every fetch fails.\<close>

definition down_ledger :: Ledger where
  "down_ledger =
     \<lparr>get_state_account = None, get_spot_market_account = (\<lambda>i. None),
      get_perp_market_account = (\<lambda>i. None), get_oracle_data = (\<lambda>key. None),
      get_user_account = (\<lambda>auth sub. None)\<rparr>"

definition down_world :: World where
  "down_world = \<lparr>clock = 9, ledger_at = (\<lambda>t. down_ledger)\<rparr>"

text \<open>Two runs that end in the same world, either with the same exception or with two
  values in order.\<close>

definition le_run :: "(error + real) \<times> World \<Rightarrow> (error + real) \<times> World \<Rightarrow> bool" where
  "le_run r1 r2 \<longleftrightarrow>
     snd r1 = snd r2 \<and>
     (case fst r1 of
        Inl e1 \<Rightarrow> fst r2 = Inl e1
      | Inr a \<Rightarrow> (case fst r2 of Inl e2 \<Rightarrow> False | Inr b \<Rightarrow> a \<le> b))"

text \<open>The world \<open>w'\<close> has the ledgers of the world \<open>w\<close> and a clock that is not earlier:
  it is a world that a computation started in \<open>w\<close> can be in.\<close>

definition later :: "World \<Rightarrow> World \<Rightarrow> bool" where
  "later w w' \<longleftrightarrow> ledger_at w' = ledger_at w \<and> clock w \<le> clock w'"

text \<open>A computation that ends in a world later than the one it started in.\<close>

definition steady :: "'a io \<Rightarrow> bool" where
  "steady m \<longleftrightarrow> (\<forall>w r w'. m w = (r, w') \<longrightarrow> later w w')"

text \<open>A world whose ledger serves the oracle price 100 plus the number of fetches made
  before.\<close>

definition moving_world :: World where
  "moving_world =
     \<lparr>clock = 0,
      ledger_at = (\<lambda>t. demo_ledger\<lparr>get_oracle_data :=
                     (\<lambda>key. if key = 7 then Some (demo_oracle\<lparr>price := 100 + real t\<rparr>)
                            else None)\<rparr>)\<rparr>"

section \<open>Sequencing lemmas\<close>

lemma bind_ret [simp]: "bind (ret v) f = f v"
  by (simp add: bind_def ret_def)

lemma bind_raise [simp]: "bind (raise e) f = raise e"
  by (simp add: bind_def raise_def)

lemma bind_Inr: "m w = (Inr v, w') \<Longrightarrow> bind m f w = f v w'"
  by (simp add: bind_def)

lemma bind_eq_Inr:
  "bind m f w = (Inr y, w'') \<longleftrightarrow> (\<exists>v w'. m w = (Inr v, w') \<and> f v w' = (Inr y, w''))"
  by (auto simp: bind_def split: prod.splits sum.splits)

text \<open>Unfolding sets for evaluation on concrete inputs.\<close>

lemmas io = bind_def ret_def raise_def

lemmas accessors =
  get_user_def get_state_def get_spot_market_def get_perp_market_def
  get_spot_oracle_data_def get_perp_oracle_data_def lookup_def index_def

lemmas demo =
  cached_user_def demo_math_def demo_account_def demo_cash_deposit_def demo_perp_position_def
  demo_cash_market_def demo_perp_market_def demo_oracle_def demo_state_def
  demo_token_amount_def demo_asset_value_def demo_liability_value_def
  demo_worst_case_token_amounts_def demo_worst_case_base_asset_amount_def spot_price_def
  QUOTE_ASSET_BANK_INDEX_def demo_cash_borrow_def

lemmas methods =
  get_leverage_def get_total_collateral_def get_free_collateral_def can_be_liquidated_def
  get_spot_market_asset_value_def spot_asset_body_def
  get_unrealized_pnl_def unrealized_pnl_body_def get_margin_requirement_def
  get_total_perp_positon_def perp_positon_body_def get_spot_market_liability_def
  spot_liability_body_def py_div_def

section \<open>The snapshot provider before the first refresh\<close>

text \<open>
  Claim C7. In cached mode (\<open>use_cache\<close>), each of the six accessors \<open>get_state\<close>,
  \<open>get_spot_market\<close>, \<open>get_perp_market\<close>, \<open>get_spot_oracle_data\<close>,
  \<open>get_perp_oracle_data\<close> and \<open>get_user\<close> raises the assertion error (NotReady) as long
  as \<open>set_cache\<close> has not run, and no call of an accessor ever fetches: it leaves the
  world, whose clock counts the fetches, as it found it.
\<close>

theorem cached_accessors_not_ready:
  assumes "use_cache self"
  shows "(\<not> cache_is_set self \<longrightarrow>
            get_state self w = (Inl AssertionError, w) \<and>
            get_spot_market self i w = (Inl AssertionError, w) \<and>
            get_perp_market self i w = (Inl AssertionError, w) \<and>
            get_spot_oracle_data self spot_market w = (Inl AssertionError, w) \<and>
            get_perp_oracle_data self perp_market w = (Inl AssertionError, w) \<and>
            get_user self w = (Inl AssertionError, w)) \<and>
         snd (get_state self w) = w \<and>
         snd (get_spot_market self i w) = w \<and>
         snd (get_perp_market self i w) = w \<and>
         snd (get_spot_oracle_data self spot_market w) = w \<and>
         snd (get_perp_oracle_data self perp_market w) = w \<and>
         snd (get_user self w) = w"
  using assms by (simp add: accessors io split: option.splits)

text \<open>Witness for C7: the object that \<open>init\<close> builds in cached mode, and an object whose
  cache is filled.\<close>

theorem cached_accessors_not_ready_witness:
  "use_cache (init 1 0 True) \<and> \<not> cache_is_set (init 1 0 True) \<and>
   get_state (init 1 0 True) demo_world = (Inl AssertionError, demo_world) \<and>
   get_spot_market (init 1 0 True) 0 demo_world = (Inl AssertionError, demo_world) \<and>
   get_perp_market (init 1 0 True) 0 demo_world = (Inl AssertionError, demo_world) \<and>
   get_spot_oracle_data (init 1 0 True) demo_cash_market demo_world
     = (Inl AssertionError, demo_world) \<and>
   get_perp_oracle_data (init 1 0 True) demo_perp_market demo_world
     = (Inl AssertionError, demo_world) \<and>
   get_user (init 1 0 True) demo_world = (Inl AssertionError, demo_world) \<and>
   snd (get_user (cached_user demo_account) demo_world) = demo_world"
proof -
  have u: "use_cache (init 1 0 True)" and n: "\<not> cache_is_set (init 1 0 True)"
    by (simp_all add: init_def)
  have c: "use_cache (cached_user demo_account)"
    by (simp add: cached_user_def)
  from cached_accessors_not_ready [OF u, of demo_world 0 demo_cash_market demo_perp_market]
       cached_accessors_not_ready [OF c, of demo_world 0 demo_cash_market demo_perp_market]
       u n
  show ?thesis by simp
qed

section \<open>The unsupported option of the unrealized pnl\<close>

text \<open>
  Claim C1 says that \<open>get_unrealized_pnl\<close> with a margin category raises the unsupported
  option error whatever the number of perpetual positions. The \<^verbatim>\<open>raise\<close> sits inside
  the loop, after the pnl of the position has been computed: on an account without perpetual
  positions, and on an account none of whose positions passes the market filter, the method
  returns 0.
\<close>

theorem unrealized_pnl_weighted_returns:
  "get_unrealized_pnl (cached_user (demo_account\<lparr>perp_positions := []\<rparr>)) demo_math True None
     (Some INITIAL) demo_world = (Inr 0, demo_world) \<and>
   get_unrealized_pnl (cached_user demo_account) demo_math True (Some 3)
     (Some INITIAL) demo_world = (Inr 0, demo_world)"
  by (simp add: get_unrealized_pnl_def unrealized_pnl_body_def io accessors demo)

section \<open>The cash market in the asset value\<close>

text \<open>
  Claim C8 says that a position of the cash market (index 0) adds its token amount to the
  asset value when it is a deposit and nothing otherwise. The branch of
  \<open>get_spot_market_asset_value\<close> for the cash market does not look at the balance type: an
  account whose only position is a cash borrow of 100 has the asset value 100, where an
  account without positions has 0.
\<close>

theorem cash_borrow_counts_as_asset:
  "get_spot_market_asset_value
     (cached_user (demo_account\<lparr>spot_positions := [demo_cash_borrow]\<rparr>)) demo_math None True None
     demo_world = (Inr 100, demo_world) \<and>
   get_spot_market_asset_value
     (cached_user (demo_account\<lparr>spot_positions := []\<rparr>)) demo_math None True None
     demo_world = (Inr 0, demo_world)"
  by (simp add: get_spot_market_asset_value_def spot_asset_body_def io accessors demo)

section \<open>Free collateral\<close>

text \<open>
  Claim C4. \<open>get_free_collateral\<close> is \<open>max 0 (total_collateral - margin_requirement)\<close>,
  the total collateral taken without margin category and the margin requirement under the
  initial regime with the default buffer 0, computed one after the other; and whatever it
  returns is not negative.
\<close>

theorem free_collateral_clamped:
  "(get_total_collateral self M None w = (Inr total_collateral, w1) \<longrightarrow>
    get_margin_requirement self M (Some INITIAL) (Some 0) w1 = (Inr init_margin_req, w2) \<longrightarrow>
    get_free_collateral self M w = (Inr (max 0 (total_collateral - init_margin_req)), w2)) \<and>
   (get_free_collateral self M w = (Inr v, w') \<longrightarrow> 0 \<le> v)"
  by (auto simp: get_free_collateral_def bind_eq_Inr bind_Inr Let_def ret_def)

text \<open>Witness for C4: the account of the end-to-end scenario has the total collateral 1000
  and the initial margin requirement 50.\<close>

theorem free_collateral_clamped_witness:
  "get_total_collateral (cached_user demo_account) demo_math None demo_world
     = (Inr 1000, demo_world) \<and>
   get_margin_requirement (cached_user demo_account) demo_math (Some INITIAL) (Some 0) demo_world
     = (Inr 50, demo_world) \<and>
   get_free_collateral (cached_user demo_account) demo_math demo_world = (Inr 950, demo_world) \<and>
   (0::real) \<le> 950"
proof -
  have tc: "get_total_collateral (cached_user demo_account) demo_math None demo_world
     = (Inr 1000, demo_world)"
    by (simp add: methods io accessors demo)
  have mr: "get_margin_requirement (cached_user demo_account) demo_math (Some INITIAL) (Some 0)
     demo_world = (Inr 50, demo_world)"
    by (simp add: methods io accessors demo)
  from free_collateral_clamped [of "cached_user demo_account" demo_math demo_world 1000
         demo_world 50 demo_world 950 demo_world] tc mr
  show ?thesis by simp
qed

section \<open>The liquidation buffer that is absent\<close>

text \<open>
  \<open>get_leverage\<close> and \<open>can_be_liquidated\<close> pass \<^verbatim>\<open>None\<close> as the liquidation buffer. In
  \<open>get_total_perp_positon\<close> an absent buffer and the buffer 0 give the same margin ratio. In
  \<open>get_spot_market_liability\<close> the buffer goes to the helper
  \<^verbatim>\<open>get_spot_liability_value\<close>; when the helper treats an absent buffer as 0, the margin
  requirement with \<^verbatim>\<open>None\<close> is the margin requirement with 0.
\<close>

lemma perp_positon_body_no_buffer:
  "perp_positon_body self M mc None ioo user = perp_positon_body self M mc (Some 0) ioo user"
  by (intro ext) (simp add: perp_positon_body_def Let_def cong: option.case_cong)

lemma spot_liability_body_no_buffer:
  assumes "\<forall>t od m c r. get_spot_liability_value M t od m c None r
                        = get_spot_liability_value M t od m c (Some 0) r"
  shows "spot_liability_body self M mi mc None ioo user
         = spot_liability_body self M mi mc (Some 0) ioo user"
  unfolding spot_liability_body_def by (intro ext) (simp only: assms [rule_format])

lemma margin_requirement_no_buffer:
  assumes "\<forall>t od m c r. get_spot_liability_value M t od m c None r
                        = get_spot_liability_value M t od m c (Some 0) r"
  shows "get_margin_requirement self M mc None = get_margin_requirement self M mc (Some 0)"
  by (simp add: get_margin_requirement_def get_total_perp_positon_def
        get_spot_market_liability_def perp_positon_body_no_buffer
        spot_liability_body_no_buffer [OF assms])

section \<open>Leverage\<close>

text \<open>
  Claim C3 says that, for every account and margin category, \<open>get_leverage\<close> is the margin
  requirement times 10000 divided by the total collateral, and 0 when either of them is 0.
  With a margin category it is not: the total collateral is taken for the same category, and
  \<open>get_unrealized_pnl\<close> refuses a category. Counterexample for C3: on the account whose only
  position is a perpetual position of size 0, the margin requirement under the initial regime
  is 0, but the leverage under the initial regime is the unsupported option error.
\<close>

theorem leverage_weighted_counterexample:
  "get_margin_requirement
     (cached_user (demo_account\<lparr>spot_positions := [],
        perp_positions := [demo_perp_position\<lparr>base_asset_amount := 0\<rparr>]\<rparr>))
     demo_math (Some INITIAL) (Some 0) demo_world = (Inr 0, demo_world) \<and>
   get_leverage
     (cached_user (demo_account\<lparr>spot_positions := [],
        perp_positions := [demo_perp_position\<lparr>base_asset_amount := 0\<rparr>]\<rparr>))
     demo_math (Some INITIAL) demo_world = (Inl NotImplementedError, demo_world)"
  by (simp add: methods io accessors demo)

text \<open>
  Claim C3 as amended. Without a margin category \<open>get_leverage\<close> is the margin requirement
  times 10000 divided by the total collateral, computed in this order, and it is 0 when either
  of them is 0; in particular it returns 0, and does not raise a division error, when both are
  0. With a margin category it raises the unsupported option error as soon as the margin
  requirement and the spot asset value have been computed and the account has a first
  perpetual position whose market and oracle can be read, whatever the margin requirement is.
  The margin requirement is the one with the default buffer 0; the helper
  \<^verbatim>\<open>get_spot_liability_value\<close> is assumed to treat an absent buffer as 0.
\<close>

theorem leverage_ratio:
  assumes "\<forall>t od m c r. get_spot_liability_value M t od m c None r
                        = get_spot_liability_value M t od m c (Some 0) r"
  shows "(get_margin_requirement self M None (Some 0) w = (Inr requirement, w1) \<longrightarrow>
          get_total_collateral self M None w1 = (Inr collateral, w2) \<longrightarrow>
          get_leverage self M None w =
            (Inr (if requirement = 0 \<or> collateral = 0 then 0
                  else requirement * 10000 / collateral), w2)) \<and>
         (get_margin_requirement self M (Some category) (Some 0) w = (Inr requirement', w1') \<longrightarrow>
          get_spot_market_asset_value self M (Some category) True None w1'
            = (Inr spot_collateral, w2') \<longrightarrow>
          get_user self w2' = (Inr user, w3') \<longrightarrow>
          perp_positions user = position # rest \<longrightarrow>
          get_perp_market self (pp_market_index position) w3' = (Inr market, w4') \<longrightarrow>
          get_perp_oracle_data self market w4' = (Inr oracle_data, w5') \<longrightarrow>
          get_leverage self M (Some category) w = (Inl NotImplementedError, w5'))"
proof (intro conjI impI)
  assume mr: "get_margin_requirement self M None (Some 0) w = (Inr requirement, w1)"
    and tc: "get_total_collateral self M None w1 = (Inr collateral, w2)"
  have "get_margin_requirement self M None None w = (Inr requirement, w1)"
    using mr by (simp add: margin_requirement_no_buffer [OF assms])
  then show "get_leverage self M None w =
            (Inr (if requirement = 0 \<or> collateral = 0 then 0
                  else requirement * 10000 / collateral), w2)"
    by (simp add: get_leverage_def bind_def tc py_div_def ret_def raise_def)
next
  assume mr: "get_margin_requirement self M (Some category) (Some 0) w = (Inr requirement', w1')"
    and s: "get_spot_market_asset_value self M (Some category) True None w1'
            = (Inr spot_collateral, w2')"
    and u: "get_user self w2' = (Inr user, w3')"
    and p: "perp_positions user = position # rest"
    and m: "get_perp_market self (pp_market_index position) w3' = (Inr market, w4')"
    and od: "get_perp_oracle_data self market w4' = (Inr oracle_data, w5')"
  have "get_margin_requirement self M (Some category) None w = (Inr requirement', w1')"
    using mr by (simp add: margin_requirement_no_buffer [OF assms])
  then show "get_leverage self M (Some category) w = (Inl NotImplementedError, w5')"
    by (simp add: get_leverage_def get_total_collateral_def get_unrealized_pnl_def
          unrealized_pnl_body_def bind_def s u p m od ret_def raise_def)
qed

text \<open>The helper of the concrete instance treats an absent buffer as 0.\<close>

lemma demo_no_buffer:
  "\<forall>t od m c r. get_spot_liability_value demo_math t od m c None r
                        = get_spot_liability_value demo_math t od m c (Some 0) r"
  by (simp add: demo_math_def demo_liability_value_def split: option.splits)

text \<open>Witness for the amended C3. Without a category: the account of the end-to-end scenario
  (requirement 500, collateral 1000, leverage 5000 basis points) and the account without
  positions (both 0, leverage 0). Under the initial regime: the account of the end-to-end
  scenario (requirement 50, then the error).\<close>

theorem leverage_ratio_witness:
  "get_margin_requirement (cached_user demo_account) demo_math None (Some 0) demo_world
     = (Inr 500, demo_world) \<and>
   get_total_collateral (cached_user demo_account) demo_math None demo_world
     = (Inr 1000, demo_world) \<and>
   get_leverage (cached_user demo_account) demo_math None demo_world = (Inr 5000, demo_world) \<and>
   get_margin_requirement (cached_user (demo_account\<lparr>spot_positions := [], perp_positions := []\<rparr>))
     demo_math None (Some 0) demo_world = (Inr 0, demo_world) \<and>
   get_total_collateral (cached_user (demo_account\<lparr>spot_positions := [], perp_positions := []\<rparr>))
     demo_math None demo_world = (Inr 0, demo_world) \<and>
   get_leverage (cached_user (demo_account\<lparr>spot_positions := [], perp_positions := []\<rparr>))
     demo_math None demo_world = (Inr 0, demo_world) \<and>
   get_margin_requirement (cached_user demo_account) demo_math (Some INITIAL) (Some 0) demo_world
     = (Inr 50, demo_world) \<and>
   get_spot_market_asset_value (cached_user demo_account) demo_math (Some INITIAL) True None
     demo_world = (Inr 1000, demo_world) \<and>
   get_user (cached_user demo_account) demo_world = (Inr demo_account, demo_world) \<and>
   perp_positions demo_account = demo_perp_position # [] \<and>
   get_perp_market (cached_user demo_account) (pp_market_index demo_perp_position) demo_world
     = (Inr demo_perp_market, demo_world) \<and>
   get_perp_oracle_data (cached_user demo_account) demo_perp_market demo_world
     = (Inr demo_oracle, demo_world) \<and>
   get_leverage (cached_user demo_account) demo_math (Some INITIAL) demo_world
     = (Inl NotImplementedError, demo_world)"
proof -
  let ?a = "cached_user demo_account"
  let ?e = "cached_user (demo_account\<lparr>spot_positions := [], perp_positions := []\<rparr>)"
  have mr: "get_margin_requirement ?a demo_math None (Some 0) demo_world = (Inr 500, demo_world)"
    by (simp add: methods io accessors demo)
  have tc: "get_total_collateral ?a demo_math None demo_world = (Inr 1000, demo_world)"
    by (simp add: methods io accessors demo)
  have mr0: "get_margin_requirement ?e demo_math None (Some 0) demo_world = (Inr 0, demo_world)"
    by (simp add: methods io accessors demo)
  have tc0: "get_total_collateral ?e demo_math None demo_world = (Inr 0, demo_world)"
    by (simp add: methods io accessors demo)
  have mri: "get_margin_requirement ?a demo_math (Some INITIAL) (Some 0) demo_world
     = (Inr 50, demo_world)"
    by (simp add: methods io accessors demo)
  have s: "get_spot_market_asset_value ?a demo_math (Some INITIAL) True None demo_world
     = (Inr 1000, demo_world)"
    by (simp add: methods io accessors demo)
  have u: "get_user ?a demo_world = (Inr demo_account, demo_world)"
    by (simp add: io accessors cached_user_def)
  have ps: "perp_positions demo_account = demo_perp_position # []"
    by (simp add: demo_account_def)
  have m: "get_perp_market ?a (pp_market_index demo_perp_position) demo_world
     = (Inr demo_perp_market, demo_world)"
    by (simp add: io accessors cached_user_def demo_perp_position_def)
  have od: "get_perp_oracle_data ?a demo_perp_market demo_world = (Inr demo_oracle, demo_world)"
    by (simp add: io accessors cached_user_def demo_perp_market_def)
  from leverage_ratio [OF demo_no_buffer, of ?a demo_world 500 demo_world 1000 demo_world
         INITIAL 50 demo_world 1000 demo_world demo_account demo_world demo_perp_position "[]"
         demo_perp_market demo_world demo_oracle demo_world]
       leverage_ratio [OF demo_no_buffer, of ?e demo_world 0 demo_world 0 demo_world]
       mr tc mr0 tc0 mri s u ps m od
  show ?thesis by simp
qed

section \<open>Liquidation\<close>

text \<open>
  Claim C6. \<open>can_be_liquidated\<close> returns whether the total collateral is strictly less than
  the maintenance margin requirement with a buffer, where the buffer is the
  \<open>liquidation_margin_buffer_ratio\<close> of the global state when the account is flagged
  \<open>being_liquidated\<close> and 0 otherwise. The four steps (total collateral, account, buffer,
  margin requirement) run in this order; the helper \<^verbatim>\<open>get_spot_liability_value\<close> is
  assumed to treat an absent buffer as 0.
\<close>

theorem can_be_liquidated_iff:
  assumes "\<forall>t od m c r. get_spot_liability_value M t od m c None r
                        = get_spot_liability_value M t od m c (Some 0) r"
    and "get_total_collateral self M None w = (Inr total_collateral, w1)"
    and "get_user self w1 = (Inr user, w2)"
    and "(if being_liquidated user
          then bind (get_state self) (\<lambda>state. ret (liquidation_margin_buffer_ratio state))
          else ret 0) w2 = (Inr buffer, w3)"
    and "get_margin_requirement self M (Some MAINTENANCE) (Some buffer) w3
           = (Inr maintenance_req, w4)"
  shows "can_be_liquidated self M w = (Inr (total_collateral < maintenance_req), w4)"
proof (cases "being_liquidated user")
  case True
  with assms(4) obtain state where st: "get_state self w2 = (Inr state, w3)"
    and b: "buffer = liquidation_margin_buffer_ratio state"
    by (auto simp: bind_eq_Inr ret_def)
  from True show ?thesis
    using assms(5)
    by (simp add: can_be_liquidated_def bind_def assms(2) assms(3) st b ret_def)
next
  case False
  with assms(4) have b: "buffer = 0" and w: "w3 = w2"
    by (simp_all add: ret_def)
  have mr: "get_margin_requirement self M (Some MAINTENANCE) None w2 = (Inr maintenance_req, w4)"
    using assms(5) b w by (simp add: margin_requirement_no_buffer [OF assms(1)])
  from False show ?thesis
    by (simp add: can_be_liquidated_def bind_def assms(2) assms(3) mr ret_def)
qed

text \<open>Witness for C6: the account of the end-to-end scenario is not flagged and cannot be
  liquidated (collateral 1000, requirement 25); the same account without its deposit and
  flagged \<open>being_liquidated\<close> gets the buffer 200 and can (collateral 0, requirement 35).\<close>

theorem can_be_liquidated_iff_witness:
  "get_total_collateral (cached_user demo_account) demo_math None demo_world
     = (Inr 1000, demo_world) \<and>
   \<not> being_liquidated demo_account \<and>
   get_margin_requirement (cached_user demo_account) demo_math (Some MAINTENANCE) (Some 0)
     demo_world = (Inr 25, demo_world) \<and>
   can_be_liquidated (cached_user demo_account) demo_math demo_world = (Inr False, demo_world) \<and>
   get_total_collateral
     (cached_user (demo_account\<lparr>spot_positions := [], being_liquidated := True\<rparr>))
     demo_math None demo_world = (Inr 0, demo_world) \<and>
   get_margin_requirement
     (cached_user (demo_account\<lparr>spot_positions := [], being_liquidated := True\<rparr>))
     demo_math (Some MAINTENANCE) (Some 200) demo_world = (Inr 35, demo_world) \<and>
   can_be_liquidated
     (cached_user (demo_account\<lparr>spot_positions := [], being_liquidated := True\<rparr>))
     demo_math demo_world = (Inr True, demo_world)"
proof -
  let ?a = "cached_user demo_account"
  let ?b = "cached_user (demo_account\<lparr>spot_positions := [], being_liquidated := True\<rparr>)"
  have tc: "get_total_collateral ?a demo_math None demo_world = (Inr 1000, demo_world)"
    by (simp add: methods io accessors demo)
  have u: "get_user ?a demo_world = (Inr demo_account, demo_world)"
    by (simp add: io accessors cached_user_def)
  have nl: "\<not> being_liquidated demo_account"
    by (simp add: demo_account_def)
  have bf: "(if being_liquidated demo_account
          then bind (get_state ?a) (\<lambda>state. ret (liquidation_margin_buffer_ratio state))
          else ret 0) demo_world = (Inr 0, demo_world)"
    by (simp add: nl ret_def)
  have mr: "get_margin_requirement ?a demo_math (Some MAINTENANCE) (Some 0) demo_world
     = (Inr 25, demo_world)"
    by (simp add: methods io accessors demo)
  have tc': "get_total_collateral ?b demo_math None demo_world = (Inr 0, demo_world)"
    by (simp add: methods io accessors demo)
  have u': "get_user ?b demo_world
     = (Inr (demo_account\<lparr>spot_positions := [], being_liquidated := True\<rparr>), demo_world)"
    by (simp add: io accessors cached_user_def)
  have bf': "(if being_liquidated (demo_account\<lparr>spot_positions := [], being_liquidated := True\<rparr>)
          then bind (get_state ?b) (\<lambda>state. ret (liquidation_margin_buffer_ratio state))
          else ret 0) demo_world = (Inr 200, demo_world)"
    by (simp add: io accessors cached_user_def demo_state_def)
  have mr': "get_margin_requirement ?b demo_math (Some MAINTENANCE) (Some 200) demo_world
     = (Inr 35, demo_world)"
    by (simp add: methods io accessors demo)
  from can_be_liquidated_iff [OF demo_no_buffer tc u bf mr]
       can_be_liquidated_iff [OF demo_no_buffer tc' u' bf' mr'] tc nl mr tc' mr'
  show ?thesis by simp
qed

section \<open>Total collateral\<close>

text \<open>
  Claim C2 says that \<open>get_total_collateral\<close> returns, for every margin category, the spot
  asset value plus the unweighted unrealized pnl with funding. It does not: the margin
  category is handed on to \<open>get_unrealized_pnl\<close>, which refuses it. Counterexample for C2:
  on the account of the end-to-end scenario the spot asset value under the initial regime is
  1000 and the unweighted pnl is 0, but the total collateral under the initial regime is the
  unsupported option error.
\<close>

theorem total_collateral_weighted_counterexample:
  "get_spot_market_asset_value (cached_user demo_account) demo_math (Some INITIAL) True None
     demo_world = (Inr 1000, demo_world) \<and>
   get_unrealized_pnl (cached_user demo_account) demo_math True None None demo_world
     = (Inr 0, demo_world) \<and>
   get_total_collateral (cached_user demo_account) demo_math (Some INITIAL) demo_world
     = (Inl NotImplementedError, demo_world)"
  by (simp add: methods io accessors demo)

text \<open>
  Claim C2 as amended. Without a margin category \<open>get_total_collateral\<close> returns the spot
  asset value (open orders included) plus the unrealized pnl with funding, computed in this
  order. With a margin category it raises the unsupported option error as soon as the spot
  asset value has been computed and the account has a first perpetual position whose market
  and oracle can be read.
\<close>

theorem total_collateral_sum:
  "(get_spot_market_asset_value self M None True None w = (Inr spot_collateral, w1) \<longrightarrow>
    get_unrealized_pnl self M True None None w1 = (Inr pnl, w2) \<longrightarrow>
    get_total_collateral self M None w = (Inr (spot_collateral + pnl), w2)) \<and>
   (get_spot_market_asset_value self M (Some category) True None w = (Inr spot_collateral, w1) \<longrightarrow>
    get_user self w1 = (Inr user, w2) \<longrightarrow>
    perp_positions user = position # rest \<longrightarrow>
    get_perp_market self (pp_market_index position) w2 = (Inr market, w3) \<longrightarrow>
    get_perp_oracle_data self market w3 = (Inr oracle_data, w4) \<longrightarrow>
    get_total_collateral self M (Some category) w = (Inl NotImplementedError, w4))"
  by (simp add: get_total_collateral_def get_unrealized_pnl_def unrealized_pnl_body_def
        bind_def ret_def raise_def)

text \<open>Witness for the amended C2, on the account of the end-to-end scenario.\<close>

theorem total_collateral_sum_witness:
  "get_spot_market_asset_value (cached_user demo_account) demo_math None True None demo_world
     = (Inr 1000, demo_world) \<and>
   get_unrealized_pnl (cached_user demo_account) demo_math True None None demo_world
     = (Inr 0, demo_world) \<and>
   get_total_collateral (cached_user demo_account) demo_math None demo_world
     = (Inr 1000, demo_world) \<and>
   get_spot_market_asset_value (cached_user demo_account) demo_math (Some MAINTENANCE) True None
     demo_world = (Inr 1000, demo_world) \<and>
   get_user (cached_user demo_account) demo_world = (Inr demo_account, demo_world) \<and>
   perp_positions demo_account = demo_perp_position # [] \<and>
   get_perp_market (cached_user demo_account) (pp_market_index demo_perp_position) demo_world
     = (Inr demo_perp_market, demo_world) \<and>
   get_perp_oracle_data (cached_user demo_account) demo_perp_market demo_world
     = (Inr demo_oracle, demo_world) \<and>
   get_total_collateral (cached_user demo_account) demo_math (Some MAINTENANCE) demo_world
     = (Inl NotImplementedError, demo_world)"
proof -
  let ?a = "cached_user demo_account"
  have s: "get_spot_market_asset_value ?a demo_math None True None demo_world
     = (Inr 1000, demo_world)"
    by (simp add: methods io accessors demo)
  have p: "get_unrealized_pnl ?a demo_math True None None demo_world = (Inr 0, demo_world)"
    by (simp add: methods io accessors demo)
  have s': "get_spot_market_asset_value ?a demo_math (Some MAINTENANCE) True None demo_world
     = (Inr 1000, demo_world)"
    by (simp add: methods io accessors demo)
  have u: "get_user ?a demo_world = (Inr demo_account, demo_world)"
    by (simp add: io accessors cached_user_def)
  have ps: "perp_positions demo_account = demo_perp_position # []"
    by (simp add: demo_account_def)
  have m: "get_perp_market ?a (pp_market_index demo_perp_position) demo_world
     = (Inr demo_perp_market, demo_world)"
    by (simp add: io accessors cached_user_def demo_perp_position_def)
  have od: "get_perp_oracle_data ?a demo_perp_market demo_world = (Inr demo_oracle, demo_world)"
    by (simp add: io accessors cached_user_def demo_perp_market_def)
  from total_collateral_sum [of ?a demo_math demo_world 1000 demo_world 0 demo_world
         MAINTENANCE demo_account demo_perp_position "[]" demo_perp_market demo_world
         demo_oracle demo_world]
       s p s' u ps m od
  show ?thesis by simp
qed

section \<open>Cache isolation\<close>

text \<open>In cached mode every accessor, hence every method of the risk aggregator, is a
  computation that does not touch the world.\<close>

lemma const_ret [intro!]: "const_io (ret v)"
  by (auto simp: const_io_def ret_def)

lemma const_raise [intro!]: "const_io (raise e)"
  by (auto simp: const_io_def raise_def)

lemma const_bind [intro!]:
  assumes "const_io m" and "\<And>v. const_io (f v)"
  shows "const_io (bind m f)"
proof -
  from assms(1) obtain r where r: "\<And>w. m w = (r, w)"
    by (auto simp: const_io_def)
  show ?thesis
  proof (cases r)
    case (Inl e)
    with r show ?thesis by (auto simp: const_io_def bind_def)
  next
    case (Inr v)
    from assms(2) [of v] obtain r' where "\<And>w. f v w = (r', w)"
      by (auto simp: const_io_def)
    with r Inr show ?thesis by (auto simp: const_io_def bind_def)
  qed
qed

lemma const_if [intro!]: "(c \<Longrightarrow> const_io m) \<Longrightarrow> (\<not> c \<Longrightarrow> const_io n) \<Longrightarrow> const_io (if c then m else n)"
  by simp

lemma const_py_div [intro!]: "const_io (py_div a b)"
  by (auto simp: py_div_def)

lemma const_index [intro!]: "const_io (index xs i)"
  by (auto simp: index_def)

lemma const_lookup [intro!]: "const_io (lookup entry)"
  by (auto simp: lookup_def split: option.splits)

lemma const_for_loop [intro!]:
  assumes "\<And>s x. const_io (body s x)"
  shows "const_io (for_loop body s xs)"
proof (induction xs arbitrary: s)
  case Nil
  show ?case by (auto simp: const_io_def)
next
  case (Cons x xs)
  from assms [of s x] obtain r where r: "\<And>w. body s x w = (r, w)"
    by (auto simp: const_io_def)
  show ?case
  proof (cases r)
    case (Inl e)
    with r show ?thesis by (auto simp: const_io_def)
  next
    case (Inr s')
    from Cons.IH [of s'] obtain r' where "\<And>w. for_loop body s' xs w = (r', w)"
      by (auto simp: const_io_def)
    with r Inr show ?thesis by (auto simp: const_io_def)
  qed
qed

lemma const_accessors:
  assumes "use_cache self"
  shows "const_io (get_user self)" "const_io (get_state self)"
    "const_io (get_spot_market self i)" "const_io (get_perp_market self i)"
    "const_io (get_spot_oracle_data self spot_market)"
    "const_io (get_perp_oracle_data self perp_market)"
  using assms
  by (auto simp: get_user_def get_state_def get_spot_market_def get_perp_market_def
        get_spot_oracle_data_def get_perp_oracle_data_def)

lemma const_perp_positon:
  assumes "use_cache self"
  shows "const_io (get_total_perp_positon self M mc lb ioo)"
  unfolding get_total_perp_positon_def perp_positon_body_def Let_def
  by (intro const_bind const_for_loop const_if const_ret const_py_div const_accessors [OF assms])
     (auto split: option.splits)

lemma const_spot_liability:
  assumes "use_cache self"
  shows "const_io (get_spot_market_liability self M mi mc lb ioo)"
  unfolding get_spot_market_liability_def spot_liability_body_def Let_def
  by (intro const_bind const_for_loop const_if const_ret const_py_div const_accessors [OF assms])
     (auto split: prod.splits)

lemma const_unrealized_pnl:
  assumes "use_cache self"
  shows "const_io (get_unrealized_pnl self M with_funding mi mc)"
  unfolding get_unrealized_pnl_def unrealized_pnl_body_def Let_def
  by (intro const_bind const_for_loop const_if const_ret const_raise const_accessors [OF assms])

lemma const_spot_asset:
  assumes "use_cache self"
  shows "const_io (get_spot_market_asset_value self M mc ioo mi)"
  unfolding get_spot_market_asset_value_def spot_asset_body_def Let_def
  by (intro const_bind const_for_loop const_if const_ret const_accessors [OF assms])
     (auto split: prod.splits)

lemma const_leverage:
  assumes "use_cache self"
  shows "const_io (get_leverage self M mc)"
  unfolding get_leverage_def get_margin_requirement_def get_total_collateral_def
  by (intro const_bind const_if const_ret const_py_div const_perp_positon [OF assms]
        const_spot_liability [OF assms] const_unrealized_pnl [OF assms]
        const_spot_asset [OF assms])

lemma set_cache_use_cache:
  "set_cache self0 w0 = (r, self, w) \<Longrightarrow> use_cache self = use_cache self0"
  by (auto simp: set_cache_def Let_def split: prod.splits sum.splits)

text \<open>
  Claim C9. In cached mode, once \<open>set_cache\<close> has run (whatever it returned), the result
  of \<open>get_leverage\<close> is the same in any two worlds, that is for any two states of the
  external ledger, and the call leaves the world as it found it: two successive calls with no
  refresh in between return identical results.
\<close>

theorem leverage_cache_isolation:
  assumes "use_cache self0" and "set_cache self0 w0 = (r, self, w)"
  shows "fst (get_leverage self M margin_category w1) = fst (get_leverage self M margin_category w2)
         \<and> snd (get_leverage self M margin_category w1) = w1"
proof -
  have "use_cache self"
    using assms by (simp add: set_cache_use_cache)
  then have "const_io (get_leverage self M margin_category)"
    by (rule const_leverage)
  then show ?thesis
    by (auto simp: const_io_def)
qed

text \<open>Witness for C9: the cache filled from the demo ledger; the leverage is 5000 in the
  world after the refresh and in a world whose ledger is down.\<close>

theorem leverage_cache_isolation_witness:
  "use_cache (init 1 0 True) \<and>
   set_cache (init 1 0 True) demo_world
     = (Inr (), cached_user demo_account, demo_world\<lparr>clock := 5\<rparr>) \<and>
   fst (get_leverage (cached_user demo_account) demo_math None (demo_world\<lparr>clock := 5\<rparr>))
     = fst (get_leverage (cached_user demo_account) demo_math None down_world) \<and>
   get_leverage (cached_user demo_account) demo_math None (demo_world\<lparr>clock := 5\<rparr>)
     = (Inr 5000, demo_world\<lparr>clock := 5\<rparr>)"
proof -
  have u: "use_cache (init 1 0 True)"
    by (simp add: init_def)
  have s: "set_cache (init 1 0 True) demo_world
     = (Inr (), cached_user demo_account, demo_world\<lparr>clock := 5\<rparr>)"
    by (simp add: set_cache_def init_def empty_cache_def fetch_def demo_world_def
          demo_ledger_def set_cache_spot_body_def set_cache_perp_body_def io demo)
  have l: "get_leverage (cached_user demo_account) demo_math None (demo_world\<lparr>clock := 5\<rparr>)
     = (Inr 5000, demo_world\<lparr>clock := 5\<rparr>)"
    by (simp add: methods io accessors demo)
  from leverage_cache_isolation [OF u s, of demo_math None "demo_world\<lparr>clock := 5\<rparr>" down_world]
       u s l
  show ?thesis by simp
qed

section \<open>Liquidity provider shares\<close>

lemma for_loop_list_all2:
  assumes "list_all2 (\<lambda>x y. \<forall>s. f s x = g s y) xs ys"
  shows "for_loop f s xs w = for_loop g s ys w"
  using assms
proof (induction xs ys arbitrary: s w rule: list_all2_induct)
  case Nil
  show ?case by simp
next
  case (Cons x xs y ys)
  then show ?case by (simp split: prod.splits sum.splits)
qed

lemma perp_positon_body_same_data:
  assumes "get_perp_market self' = get_perp_market self"
    and "get_perp_oracle_data self' = get_perp_oracle_data self"
    and "max_margin_ratio user' = max_margin_ratio user"
  shows "perp_positon_body self' M mc lb include_open_orders user' s position
         = perp_positon_body self M mc lb include_open_orders user s position"
  unfolding perp_positon_body_def by (simp only: assms)

lemma perp_positon_body_lp_shares:
  assumes "include_open_orders \<longrightarrow>
             calculate_worst_case_base_asset_amount M (position\<lparr>lp_shares := n\<rparr>)
               = calculate_worst_case_base_asset_amount M position"
  shows "perp_positon_body self M mc lb include_open_orders user s (position\<lparr>lp_shares := n\<rparr>)
         = perp_positon_body self M mc lb include_open_orders user s position"
proof (cases include_open_orders)
  case True
  with assms have "calculate_worst_case_base_asset_amount M (position\<lparr>lp_shares := n\<rparr>)
               = calculate_worst_case_base_asset_amount M position"
    by simp
  with True show ?thesis
    by (simp add: perp_positon_body_def)
next
  case False
  then show ?thesis
    by (simp add: perp_positon_body_def)
qed

text \<open>
  Claim C10. \<open>get_total_perp_positon\<close> does not depend on the \<open>lp_shares\<close> of a
  position: for two accounts that differ only in the \<open>lp_shares\<close> of the perpetual position
  at one index, read by objects that see the same markets and oracle data, it returns the
  same result. With \<open>include_open_orders\<close> the position goes to the helper
  \<^verbatim>\<open>calculate_worst_case_base_asset_amount\<close>, which is assumed not to read \<open>lp_shares\<close>.
\<close>

theorem perp_positon_ignores_lp_shares:
  assumes "include_open_orders \<longrightarrow>
             (\<forall>position n. calculate_worst_case_base_asset_amount M (position\<lparr>lp_shares := n\<rparr>)
                = calculate_worst_case_base_asset_amount M position)"
    and "get_user self w = (Inr user, w1)"
    and "get_user self' w' = (Inr user', w1)"
    and "user' = user\<lparr>perp_positions :=
            (perp_positions user)[i := (perp_positions user ! i)\<lparr>lp_shares := n\<rparr>]\<rparr>"
    and "get_perp_market self' = get_perp_market self"
    and "get_perp_oracle_data self' = get_perp_oracle_data self"
  shows "get_total_perp_positon self' M margin_category liquidation_buffer include_open_orders w'
         = get_total_perp_positon self M margin_category liquidation_buffer include_open_orders w"
proof -
  let ?f = "perp_positon_body self' M margin_category liquidation_buffer include_open_orders user'"
  let ?g = "perp_positon_body self M margin_category liquidation_buffer include_open_orders user"
  let ?xs = "perp_positions user"
  have mmr: "max_margin_ratio user' = max_margin_ratio user"
    using assms(4) by simp
  have fg: "?f s position = ?g s position" for s position
    by (rule perp_positon_body_same_data [OF assms(5,6) mmr])
  have lp: "?g s (position\<lparr>lp_shares := m\<rparr>) = ?g s position" for s position m
    using assms(1) by (simp add: perp_positon_body_lp_shares)
  have "list_all2 (\<lambda>x y. \<forall>s. ?f s x = ?g s y)
          (?xs[i := (?xs ! i)\<lparr>lp_shares := n\<rparr>]) ?xs"
  proof (cases "i < length ?xs")
    case True
    then show ?thesis
      by (auto simp: list_all2_conv_all_nth nth_list_update fg lp)
  next
    case False
    then show ?thesis
      by (simp add: list_all2_conv_all_nth fg)
  qed
  then have "for_loop ?f 0 (perp_positions user') w1 = for_loop ?g 0 ?xs w1"
    using assms(4) by (simp add: for_loop_list_all2)
  then show ?thesis
    by (simp add: get_total_perp_positon_def bind_def assms(2,3))
qed


text \<open>The worst case helper of the concrete instance does not read \<open>lp_shares\<close>.\<close>

lemma demo_worst_case_lp_shares:
  "\<forall>position n. calculate_worst_case_base_asset_amount demo_math (position\<lparr>lp_shares := n\<rparr>)
                = calculate_worst_case_base_asset_amount demo_math position"
  by (simp add: demo_math_def demo_worst_case_base_asset_amount_def)

text \<open>Witness for C10: the account of the end-to-end scenario, and the same account with 7
  shares on its perpetual position.\<close>

theorem perp_positon_ignores_lp_shares_witness:
  "get_total_perp_positon
     (cached_user (demo_account\<lparr>perp_positions := [demo_perp_position\<lparr>lp_shares := 7\<rparr>]\<rparr>))
     demo_math (Some INITIAL) (Some 0) True demo_world
     = get_total_perp_positon (cached_user demo_account) demo_math (Some INITIAL) (Some 0) True
         demo_world \<and>
   get_total_perp_positon (cached_user demo_account) demo_math (Some INITIAL) (Some 0) True
     demo_world = (Inr 50, demo_world)"
proof -
  let ?u' = "demo_account\<lparr>perp_positions := [demo_perp_position\<lparr>lp_shares := 7\<rparr>]\<rparr>"
  have h: "True \<longrightarrow>
      (\<forall>position n. calculate_worst_case_base_asset_amount demo_math (position\<lparr>lp_shares := n\<rparr>)
                = calculate_worst_case_base_asset_amount demo_math position)"
    using demo_worst_case_lp_shares by simp
  have u: "get_user (cached_user demo_account) demo_world = (Inr demo_account, demo_world)"
    by (simp add: io accessors cached_user_def)
  have u': "get_user (cached_user ?u') demo_world = (Inr ?u', demo_world)"
    by (simp add: io accessors cached_user_def)
  have d: "?u' = demo_account\<lparr>perp_positions :=
            (perp_positions demo_account)[0 := (perp_positions demo_account ! 0)\<lparr>lp_shares := 7\<rparr>]\<rparr>"
    by (simp add: demo_account_def)
  have m: "get_perp_market (cached_user ?u') = get_perp_market (cached_user demo_account)"
    by (intro ext) (simp add: get_perp_market_def cached_user_def)
  have od: "get_perp_oracle_data (cached_user ?u')
              = get_perp_oracle_data (cached_user demo_account)"
    by (intro ext) (simp add: get_perp_oracle_data_def cached_user_def)
  have v: "get_total_perp_positon (cached_user demo_account) demo_math (Some INITIAL) (Some 0)
     True demo_world = (Inr 50, demo_world)"
    by (simp add: methods io accessors demo)
  from perp_positon_ignores_lp_shares [OF h u u' d m od, of "Some INITIAL" "Some 0"] v
  show ?thesis by simp
qed

section \<open>Initial and maintenance margin requirement\<close>

text \<open>Every computation of the model leaves the ledgers of the world alone and never turns
  the clock back.\<close>

lemma later_refl: "later w w"
  by (simp add: later_def)

lemma later_trans: "later w w' \<Longrightarrow> later w' w'' \<Longrightarrow> later w w''"
  by (simp add: later_def)

lemma steadyD: "steady m \<Longrightarrow> m w = (r, w') \<Longrightarrow> later w0 w \<Longrightarrow> later w0 w'"
  by (auto simp: steady_def intro: later_trans)

lemma steady_ret [intro!]: "steady (ret v)"
  by (simp add: steady_def ret_def later_def)

lemma steady_raise [intro!]: "steady (raise e)"
  by (simp add: steady_def raise_def later_def)

lemma steady_fetch [intro!]: "steady (fetch sel)"
  by (auto simp: steady_def fetch_def later_def)

lemma steady_bind [intro!]:
  assumes "steady m" and "\<And>v. steady (f v)"
  shows "steady (bind m f)"
  unfolding steady_def
proof (intro allI impI)
  fix w r w'
  assume b: "bind m f w = (r, w')"
  obtain r1 w1 where m: "m w = (r1, w1)" by (cases "m w")
  with assms(1) have l1: "later w w1" by (simp add: steady_def)
  show "later w w'"
  proof (cases r1)
    case (Inl e)
    with b m l1 show ?thesis by (simp add: bind_def)
  next
    case (Inr v)
    with b m have "f v w1 = (r, w')" by (simp add: bind_def)
    with assms(2) [of v] have "later w1 w'" by (simp add: steady_def)
    with l1 show ?thesis by (rule later_trans)
  qed
qed

lemma steady_if [intro!]:
  "(c \<Longrightarrow> steady m) \<Longrightarrow> (\<not> c \<Longrightarrow> steady n) \<Longrightarrow> steady (if c then m else n)"
  by simp

lemma steady_py_div [intro!]: "steady (py_div a b)"
  by (auto simp: py_div_def)

lemma steady_index [intro!]: "steady (index xs i)"
  by (auto simp: index_def)

lemma steady_lookup [intro!]: "steady (lookup entry)"
  by (auto simp: lookup_def split: option.splits)

lemma steady_accessors:
  "steady (get_user self)" "steady (get_spot_market self i)" "steady (get_perp_market self i)"
  "steady (get_spot_oracle_data self spot_market)"
  "steady (get_perp_oracle_data self perp_market)"
  by (auto simp: get_user_def get_spot_market_def get_perp_market_def
        get_spot_oracle_data_def get_perp_oracle_data_def)

lemma steady_for_loop:
  assumes "\<And>s x. steady (body s x)"
  shows "steady (for_loop body s xs)"
  unfolding steady_def
proof (intro allI impI)
  fix w r w'
  assume "for_loop body s xs w = (r, w')"
  then show "later w w'"
  proof (induction xs arbitrary: s w)
    case Nil
    then show ?case by (simp add: later_refl)
  next
    case (Cons x xs)
    obtain r1 w1 where b: "body s x w = (r1, w1)" by (cases "body s x w")
    with assms [of s x] have l1: "later w w1" by (simp add: steady_def)
    show ?case
    proof (cases r1)
      case (Inl e)
      with Cons.prems b l1 show ?thesis by simp
    next
      case (Inr s')
      with Cons.prems b have "for_loop body s' xs w1 = (r, w')" by simp
      then have "later w1 w'" by (rule Cons.IH)
      with l1 show ?thesis by (rule later_trans)
    qed
  qed
qed

lemma steady_perp_positon_body:
  "steady (perp_positon_body self M mc lb ioo user s position)"
  unfolding perp_positon_body_def Let_def
  by (intro steady_bind steady_if steady_ret steady_py_div steady_accessors)
     (auto split: option.splits)

lemma steady_spot_liability_body:
  "steady (spot_liability_body self M mi mc lb ioo user s position)"
  unfolding spot_liability_body_def Let_def
  by (intro steady_bind steady_if steady_ret steady_py_div steady_accessors)
     (auto split: prod.splits)

lemma steady_total_perp_positon:
  "steady (get_total_perp_positon self M mc lb ioo)"
  unfolding get_total_perp_positon_def
  by (intro steady_bind steady_for_loop steady_perp_positon_body steady_accessors)


text \<open>The two runs of a method under the maintenance and the initial regime are compared
  step by step: they make the same fetches, fail together, and their totals stay in order.\<close>

lemma le_run_ret: "a \<le> b \<Longrightarrow> le_run (ret a w) (ret b w)"
  by (simp add: le_run_def ret_def)

lemma le_run_Inr: "le_run (Inr a, w1) (Inr b, w2) \<longleftrightarrow> w1 = w2 \<and> a \<le> b"
  by (auto simp: le_run_def)

lemma le_run_if:
  assumes "c \<Longrightarrow> le_run (a w) (a' w)" "\<not> c \<Longrightarrow> le_run (b w) (b' w)"
  shows "le_run ((if c then a else b) w) ((if c then a' else b') w)"
  using assms by simp

text \<open>The same first step in both runs; what follows starts in a world that is later than
  the world \<open>w0\<close> where the comparison began.\<close>

lemma le_run_bind_same:
  assumes "steady m" and "later w0 w"
    and "\<And>v w'. later w0 w' \<Longrightarrow> m w = (Inr v, w') \<Longrightarrow> le_run (f v w') (g v w')"
  shows "le_run (bind m f w) (bind m g w)"
proof (cases "m w")
  case (Pair r w')
  show ?thesis
  proof (cases r)
    case (Inl e)
    with Pair show ?thesis by (simp add: bind_def le_run_def)
  next
    case (Inr v)
    from steadyD [OF assms(1) Pair assms(2)] have "later w0 w'" .
    with Pair Inr assms(3) [of w' v] show ?thesis by (simp add: bind_def)
  qed
qed

lemma le_run_bind:
  assumes "le_run (m1 w) (m2 w)" and "steady m1" and "later w0 w"
    and "\<And>a b w'. later w0 w' \<Longrightarrow> a \<le> b \<Longrightarrow> le_run (f a w') (g b w')"
  shows "le_run (bind m1 f w) (bind m2 g w)"
proof (cases "m1 w")
  case p1: (Pair r1 w1)
  obtain r2 w2 where p2: "m2 w = (r2, w2)" by (cases "m2 w")
  from steadyD [OF assms(2) p1 assms(3)] have l: "later w0 w1" .
  show ?thesis
  proof (cases r1)
    case (Inl e)
    with assms(1) p1 p2 show ?thesis
      by (auto simp: bind_def le_run_def)
  next
    case (Inr a)
    with assms(1) p1 p2 obtain b where "r2 = Inr b" "a \<le> b" "w2 = w1"
      by (auto simp: le_run_def split: sum.splits)
    with Inr p1 p2 assms(4) [OF l, of a b] show ?thesis
      by (simp add: bind_def)
  qed
qed

lemma le_run_div_add:
  assumes "0 < c" "a \<le> b" "s1 \<le> s2"
  shows "le_run (bind (py_div a c) (\<lambda>v. ret (s1 + v)) w) (bind (py_div b c) (\<lambda>v. ret (s2 + v)) w)"
  using assms
  by (simp add: py_div_def le_run_def ret_def bind_def divide_right_mono add_mono)

lemma le_run_for_loop:
  assumes "\<And>s1 s2 x w. later w0 w \<Longrightarrow> s1 \<le> s2 \<Longrightarrow> le_run (f s1 x w) (g s2 x w)"
    and "\<And>s x. steady (f s x)"
  shows "later w0 w \<Longrightarrow> s1 \<le> s2 \<Longrightarrow> le_run (for_loop f s1 xs w) (for_loop g s2 xs w)"
proof (induction xs arbitrary: s1 s2 w)
  case Nil
  then show ?case by (simp add: le_run_def)
next
  case (Cons x xs)
  obtain r1 w1 where p1: "f s1 x w = (r1, w1)" by (cases "f s1 x w")
  obtain r2 w2 where p2: "g s2 x w = (r2, w2)" by (cases "g s2 x w")
  from assms(1) [OF Cons.prems, of x] p1 p2 have rel: "le_run (r1, w1) (r2, w2)" by simp
  from steadyD [OF assms(2) p1 Cons.prems(1)] have l: "later w0 w1" .
  show ?case
  proof (cases r1)
    case (Inl e)
    with rel p1 p2 show ?thesis by (auto simp: le_run_def)
  next
    case (Inr a)
    with rel obtain b where b: "r2 = Inr b" "a \<le> b" "w2 = w1"
      by (auto simp: le_run_def split: sum.splits)
    with Inr p1 p2 Cons.IH [OF l, of a b] show ?thesis by simp
  qed
qed

lemma py_div_nonneg:
  assumes "py_div a c w = (Inr v, w')" "0 \<le> a" "0 < c"
  shows "0 \<le> v"
  using assms by (auto simp: py_div_def ret_def raise_def split: if_splits)

lemma perp_positon_body_mono:
  assumes "0 < AMM_TO_QUOTE_PRECISION_RATIO M" "0 < PRICE_PRECISION M" "0 < MARGIN_PRECISION M"
    and ratio: "\<forall>market size. calculate_market_margin_ratio M market size MAINTENANCE
                  \<le> calculate_market_margin_ratio M market size INITIAL"
    and prices: "\<forall>market w' d w''. later w0 w' \<longrightarrow>
                   get_perp_oracle_data self market w' = (Inr d, w'') \<longrightarrow> 0 \<le> price d"
    and "later w0 w" and "s1 \<le> s2"
  shows "le_run (perp_positon_body self M (Some MAINTENANCE) lb ioo user s1 position w)
                (perp_positon_body self M (Some INITIAL) lb ioo user s2 position w)"
  unfolding perp_positon_body_def
  apply (rule le_run_bind_same [OF steady_accessors(3) assms(6)])
  apply (simp only: if_cancel bind_ret)
  apply (rule le_run_bind_same [OF steady_accessors(5)], assumption)
  apply (simp only: Let_def option.case MarginCategory.distinct if_False simp_thms if_True)
  apply (rule le_run_bind_same [OF steady_py_div], assumption)
  subgoal premises prems for market w1 d w2 bv w3
  proof -
    from prems prices have "0 \<le> price d" by blast
    then have bv: "0 \<le> bv"
      using prems assms(1,2) by (intro py_div_nonneg [OF prems(6)]) simp_all
    have buf: "(case lb of None \<Rightarrow> r | Some b \<Rightarrow> r + b) \<le> (case lb of None \<Rightarrow> r' | Some b \<Rightarrow> r' + b)"
      if "r \<le> r'" for r r' :: real
      using that by (simp split: option.splits)
    have r: "calculate_market_margin_ratio M market size MAINTENANCE
               \<le> max (calculate_market_margin_ratio M market size INITIAL) (max_margin_ratio user)"
      for size
      using ratio by (simp add: le_max_iff_disj)
    show ?thesis
      using assms(3,7) bv
      by (intro le_run_div_add mult_left_mono buf r)
  qed
  done


lemma spot_liability_body_mono:
  assumes swp: "0 < SPOT_WEIGHT_PRECISION M"
    and tok: "\<forall>balance market direction. 0 \<le> get_token_amount M balance market direction"
    and liab: "\<forall>market w' od w'' t b r. later w0 w' \<longrightarrow>
                 get_spot_oracle_data self market w' = (Inr od, w'') \<longrightarrow> 0 \<le> t \<longrightarrow>
                 get_spot_liability_value M t od market (Some MAINTENANCE) b r
                   \<le> get_spot_liability_value M t od market (Some INITIAL) b r"
    and "later w0 w" and "s1 \<le> s2"
  shows "le_run (spot_liability_body self M mi (Some MAINTENANCE) lb ioo user s1 position w)
                (spot_liability_body self M mi (Some INITIAL) lb ioo user s2 position w)"
  unfolding spot_liability_body_def
  apply (simp only: Let_def option.inject MarginCategory.distinct if_False simp_thms if_True)
  apply (rule le_run_if)
  subgoal using assms(5) by (rule le_run_ret)
  apply (rule le_run_bind_same [OF steady_accessors(2) assms(4)])
  apply (intro le_run_if)
  subgoal using assms tok
    by (intro le_run_div_add mult_left_mono) simp_all
  subgoal using assms(5) by (rule le_run_ret)
  apply (rule le_run_bind_same [OF steady_accessors(4)], assumption)
  apply (intro le_run_if)
  subgoal premises prems for market w1 od w2
  proof -
    have "get_spot_liability_value M
            (get_token_amount M (scaled_balance position) market (balance_type position)) od
            market (Some MAINTENANCE) lb (max_margin_ratio user)
          \<le> get_spot_liability_value M
            (get_token_amount M (scaled_balance position) market (balance_type position)) od
            market (Some INITIAL) lb (max_margin_ratio user)"
      using liab prems tok by blast
    then show ?thesis
      using assms(5) by (intro le_run_ret add_mono)
  qed
  subgoal using assms(5) by (rule le_run_ret)
  subgoal premises prems for market w1 od w2
  proof (cases "get_worst_case_token_amounts M position market od")
    case (Pair t q)
    have "get_spot_liability_value M \<bar>t\<bar> od market (Some MAINTENANCE) lb (max_margin_ratio user)
            \<le> get_spot_liability_value M \<bar>t\<bar> od market (Some INITIAL) lb (max_margin_ratio user)"
      using liab prems by (meson abs_ge_zero)
    then have tot: "(if t < 0 then s1 + get_spot_liability_value M \<bar>t\<bar> od market
                                        (Some MAINTENANCE) lb (max_margin_ratio user) else s1)
          \<le> (if t < 0 then s2 + get_spot_liability_value M \<bar>t\<bar> od market
                                        (Some INITIAL) lb (max_margin_ratio user) else s2)"
      using assms(5) by (cases "t < 0") (simp_all only: if_True if_False add_mono)
    show ?thesis
      unfolding Pair prod.case
      apply (rule le_run_if)
      subgoal using swp tot by (intro le_run_div_add mult_left_mono) simp_all
      subgoal using tot by (rule le_run_ret)
      done
  qed
  done

lemma margin_requirement_mono:
  assumes "0 < SPOT_WEIGHT_PRECISION M" "0 < AMM_TO_QUOTE_PRECISION_RATIO M"
    "0 < PRICE_PRECISION M" "0 < MARGIN_PRECISION M"
    and ratio: "\<forall>market size. calculate_market_margin_ratio M market size MAINTENANCE
                  \<le> calculate_market_margin_ratio M market size INITIAL"
    and liab: "\<forall>market w' od w'' t b r. later w w' \<longrightarrow>
                 get_spot_oracle_data self market w' = (Inr od, w'') \<longrightarrow> 0 \<le> t \<longrightarrow>
                 get_spot_liability_value M t od market (Some MAINTENANCE) b r
                   \<le> get_spot_liability_value M t od market (Some INITIAL) b r"
    and tok: "\<forall>balance market direction. 0 \<le> get_token_amount M balance market direction"
    and prices: "\<forall>market w' d w''. later w w' \<longrightarrow>
                   get_perp_oracle_data self market w' = (Inr d, w'') \<longrightarrow> 0 \<le> price d"
  shows "le_run (get_margin_requirement self M (Some MAINTENANCE) lb w)
                (get_margin_requirement self M (Some INITIAL) lb w)"
  unfolding get_margin_requirement_def
proof (rule le_run_bind [OF _ steady_total_perp_positon later_refl])
  show "le_run (get_total_perp_positon self M (Some MAINTENANCE) lb True w)
               (get_total_perp_positon self M (Some INITIAL) lb True w)"
    unfolding get_total_perp_positon_def
    by (intro le_run_bind_same [OF steady_accessors(1) later_refl] le_run_for_loop
          perp_positon_body_mono [OF assms(2,3,4) ratio prices] steady_perp_positon_body)
       simp_all
next
  fix a b :: real and w'
  assume l: "later w w'" and ab: "a \<le> b"
  show "le_run
          (bind (get_spot_market_liability self M None (Some MAINTENANCE) lb True)
             (\<lambda>spot_liability. ret (a + spot_liability)) w')
          (bind (get_spot_market_liability self M None (Some INITIAL) lb True)
             (\<lambda>spot_liability. ret (b + spot_liability)) w')"
    unfolding get_spot_market_liability_def
    apply (rule le_run_bind [where ?w0.0 = w, OF _ _ l])
      apply (intro le_run_bind_same [OF steady_accessors(1) l] le_run_for_loop
               spot_liability_body_mono [OF assms(1) tok liab] steady_spot_liability_body)
         apply simp_all
     apply (intro steady_bind steady_for_loop steady_spot_liability_body steady_accessors)
    apply (rule le_run_ret)
    using ab apply simp
    done
qed

text \<open>
  Claim C5. For the same object, helpers, buffer and world (identical positions and market
  data), in cached mode and in live mode, the margin requirement under the initial regime is
  at least the one under the maintenance regime, given that the initial floors are at least as
  strict: the market margin ratio of the initial regime is at least that of the maintenance
  regime, and so is the spot liability value of a non-negative token amount at an oracle datum
  that the object reads in the world of the call, from the moment of the call on. The data is
  well formed: the precision constants are positive, token amounts are not negative and no
  oracle price of a perpetual market that the object reads in the world of the call, from the
  moment of the call on, is negative.
\<close>

theorem initial_requirement_dominates:
  assumes "0 < SPOT_WEIGHT_PRECISION M" "0 < AMM_TO_QUOTE_PRECISION_RATIO M"
    "0 < PRICE_PRECISION M" "0 < MARGIN_PRECISION M"
    and "\<forall>market size. calculate_market_margin_ratio M market size MAINTENANCE
                  \<le> calculate_market_margin_ratio M market size INITIAL"
    and "\<forall>market w' od w'' t b r. later w w' \<longrightarrow>
                 get_spot_oracle_data self market w' = (Inr od, w'') \<longrightarrow> 0 \<le> t \<longrightarrow>
                 get_spot_liability_value M t od market (Some MAINTENANCE) b r
                   \<le> get_spot_liability_value M t od market (Some INITIAL) b r"
    and "\<forall>balance market direction. 0 \<le> get_token_amount M balance market direction"
    and "\<forall>market w' d w''. later w w' \<longrightarrow>
                   get_perp_oracle_data self market w' = (Inr d, w'') \<longrightarrow> 0 \<le> price d"
    and "get_margin_requirement self M (Some INITIAL) liquidation_buffer w
           = (Inr initial_req, w1)"
    and "get_margin_requirement self M (Some MAINTENANCE) liquidation_buffer w
           = (Inr maintenance_req, w2)"
  shows "maintenance_req \<le> initial_req"
  using margin_requirement_mono [OF assms(1-8), of liquidation_buffer] assms(9,10)
  by (simp add: le_run_Inr)


text \<open>The concrete instance meets the conditions, for an object in cached mode and for the
  object in live mode in the world whose prices move.\<close>

lemma demo_ratio:
  "\<forall>market size. calculate_market_margin_ratio demo_math market size MAINTENANCE
                  \<le> calculate_market_margin_ratio demo_math market size INITIAL"
  by (simp add: demo_math_def)

lemma demo_token_amount_nonneg:
  "\<forall>balance market direction. 0 \<le> get_token_amount demo_math balance market direction"
  by (simp add: demo_math_def demo_token_amount_def)

lemma demo_liability_le:
  assumes "0 \<le> t" "0 \<le> spot_price od"
  shows "get_spot_liability_value demo_math t od market (Some MAINTENANCE) b r
           \<le> get_spot_liability_value demo_math t od market (Some INITIAL) b r"
proof -
  have "0 \<le> t * spot_price od"
    using assms by simp
  then have "t * spot_price od * (11000 + x) \<le> t * spot_price od * (max 12000 r + x)" for x
    by (intro mult_left_mono) simp_all
  then show ?thesis
    by (simp add: demo_math_def demo_liability_value_def divide_right_mono)
qed

lemma demo_liability_cached:
  "\<forall>market w' od w'' t b r. later w w' \<longrightarrow>
     get_spot_oracle_data (cached_user user) market w' = (Inr od, w'') \<longrightarrow> 0 \<le> t \<longrightarrow>
     get_spot_liability_value demo_math t od market (Some MAINTENANCE) b r
       \<le> get_spot_liability_value demo_math t od market (Some INITIAL) b r"
proof (intro allI impI)
  fix market w' od w'' and t :: real and b :: "real option" and r :: real
  assume "get_spot_oracle_data (cached_user user) market w' = (Inr od, w'')" and t: "0 \<le> t"
  then have "od = IntOne"
    by (auto simp: get_spot_oracle_data_def lookup_def index_def io cached_user_def
          split: if_splits)
  then have "0 \<le> spot_price od"
    by (simp add: spot_price_def)
  with t show "get_spot_liability_value demo_math t od market (Some MAINTENANCE) b r
       \<le> get_spot_liability_value demo_math t od market (Some INITIAL) b r"
    by (rule demo_liability_le)
qed

lemma demo_prices_cached:
  "\<forall>market w' d w''. later w w' \<longrightarrow>
     get_perp_oracle_data (cached_user user) market w' = (Inr d, w'') \<longrightarrow> 0 \<le> price d"
  by (auto simp: get_perp_oracle_data_def lookup_def index_def io cached_user_def
        demo_oracle_def split: if_splits)

lemma demo_liability_live:
  "\<forall>market w' od w'' t b r. later moving_world w' \<longrightarrow>
     get_spot_oracle_data (init 1 0 False) market w' = (Inr od, w'') \<longrightarrow> 0 \<le> t \<longrightarrow>
     get_spot_liability_value demo_math t od market (Some MAINTENANCE) b r
       \<le> get_spot_liability_value demo_math t od market (Some INITIAL) b r"
proof (intro allI impI)
  fix market w' od w'' and t :: real and b :: "real option" and r :: real
  assume "later moving_world w'"
    and "get_spot_oracle_data (init 1 0 False) market w' = (Inr od, w'')" and t: "0 \<le> t"
  then have "0 \<le> spot_price od"
    by (auto simp: get_spot_oracle_data_def fetch_def io init_def later_def moving_world_def
          demo_oracle_def spot_price_def split: if_splits)
  with t show "get_spot_liability_value demo_math t od market (Some MAINTENANCE) b r
       \<le> get_spot_liability_value demo_math t od market (Some INITIAL) b r"
    by (rule demo_liability_le)
qed

lemma demo_prices_live:
  "\<forall>market w' d w''. later moving_world w' \<longrightarrow>
     get_perp_oracle_data (init 1 0 False) market w' = (Inr d, w'') \<longrightarrow> 0 \<le> price d"
  by (auto simp: get_perp_oracle_data_def fetch_def init_def later_def moving_world_def
        demo_oracle_def split: if_splits)

text \<open>Witness for C5. In cached mode: the account of the end-to-end scenario with a cash
  borrow of 100 in place of its deposit, 150 under the initial regime and 125 under the
  maintenance regime. In live mode: the account of the end-to-end scenario read from the
  ledger whose price moves (102 when the oracle is fetched), 51 and 25.5, after five fetches
  each.\<close>

theorem initial_requirement_dominates_witness:
  "get_margin_requirement (cached_user (demo_account\<lparr>spot_positions := [demo_cash_borrow]\<rparr>))
     demo_math (Some INITIAL) (Some 0) demo_world = (Inr 150, demo_world) \<and>
   get_margin_requirement (cached_user (demo_account\<lparr>spot_positions := [demo_cash_borrow]\<rparr>))
     demo_math (Some MAINTENANCE) (Some 0) demo_world = (Inr 125, demo_world) \<and>
   (125::real) \<le> 150 \<and>
   \<not> use_cache (init 1 0 False) \<and>
   get_margin_requirement (init 1 0 False) demo_math (Some INITIAL) (Some 0) moving_world
     = (Inr 51, moving_world\<lparr>clock := 5\<rparr>) \<and>
   get_margin_requirement (init 1 0 False) demo_math (Some MAINTENANCE) (Some 0) moving_world
     = (Inr (51 / 2), moving_world\<lparr>clock := 5\<rparr>) \<and>
   (51 / 2 :: real) \<le> 51"
proof -
  let ?a = "cached_user (demo_account\<lparr>spot_positions := [demo_cash_borrow]\<rparr>)"
  have p: "0 < SPOT_WEIGHT_PRECISION demo_math" "0 < AMM_TO_QUOTE_PRECISION_RATIO demo_math"
    "0 < PRICE_PRECISION demo_math" "0 < MARGIN_PRECISION demo_math"
    by (simp_all add: demo_math_def)
  have i: "get_margin_requirement ?a demo_math (Some INITIAL) (Some 0) demo_world
     = (Inr 150, demo_world)"
    by (simp add: methods io accessors demo)
  have m: "get_margin_requirement ?a demo_math (Some MAINTENANCE) (Some 0) demo_world
     = (Inr 125, demo_world)"
    by (simp add: methods io accessors demo)
  have l: "\<not> use_cache (init 1 0 False)"
    by (simp add: init_def)
  have i': "get_margin_requirement (init 1 0 False) demo_math (Some INITIAL) (Some 0)
     moving_world = (Inr 51, moving_world\<lparr>clock := 5\<rparr>)"
    by (simp add: methods io accessors demo init_def fetch_def moving_world_def demo_ledger_def)
  have m': "get_margin_requirement (init 1 0 False) demo_math (Some MAINTENANCE) (Some 0)
     moving_world = (Inr (51 / 2), moving_world\<lparr>clock := 5\<rparr>)"
    by (simp add: methods io accessors demo init_def fetch_def moving_world_def demo_ledger_def)
  from initial_requirement_dominates [OF p demo_ratio demo_liability_cached
         demo_token_amount_nonneg demo_prices_cached i m]
       initial_requirement_dominates [OF p demo_ratio demo_liability_live
         demo_token_amount_nonneg demo_prices_live i' m'] i m l i' m'
  show ?thesis by simp
qed

end
